theory Spec2Isabelle
  imports Complex_Main "HOL-Library.Sublist"
begin

section \<open>Strings\<close>

text \<open>
  A Python \<open>str\<close> is modelled as a \<open>string\<close> holding its UTF-8 bytes, so that the
  substring test \<open>k in text\<close> is \<^const>\<open>sublist\<close> (a match of well-formed UTF-8 in
  well-formed UTF-8 is a match of code points). \<open>str.lower()\<close> is modelled on ASCII:
  the letters A to Z are mapped to a to z, every other byte is kept. This is
  \<open>str.lower()\<close> on ASCII text; on letters outside ASCII the model and Python differ.
\<close>

definition lower_char :: "char \<Rightarrow> char" where
  "lower_char c =
     (case map_of (zip ''ABCDEFGHIJKLMNOPQRSTUVWXYZ'' ''abcdefghijklmnopqrstuvwxyz'') c of
        Some d \<Rightarrow> d
      | None \<Rightarrow> c)"

definition lower :: "string \<Rightarrow> string" where
  "lower s = map lower_char s"

text \<open>\<open>sep.join(texts)\<close>\<close>

fun join :: "string \<Rightarrow> string list \<Rightarrow> string" where
  "join sep [] = []"
| "join sep [x] = x"
| "join sep (x # y # ys) = x @ sep @ join sep (y # ys)"

text \<open>\<open>s.replace(old, new)\<close> for a non-empty \<open>old\<close>: every occurrence, left to right.\<close>

fun replace :: "string \<Rightarrow> string \<Rightarrow> string \<Rightarrow> string" where
  "replace old new [] = []"
| "replace old new (c # cs) =
     (if old \<noteq> [] \<and> prefix old (c # cs)
      then new @ replace old new (drop (length old) (c # cs))
      else c # replace old new cs)"

section \<open>The static tables\<close>

text \<open>The two words with letters outside ASCII are written by their UTF-8 bytes.\<close>

definition plywanie :: string where
  "plywanie = ''p'' @ [char_of (0xC5 :: nat), char_of (0x82 :: nat)] @ ''ywanie''"

definition gory :: string where
  "gory = ''g'' @ [char_of (0xC3 :: nat), char_of (0xB3 :: nat)] @ ''ry''"

definition ACTIVITY_MAP :: "(string \<times> string list) list" where
  "ACTIVITY_MAP =
    [(''ride'', [''ride'', ''bike'', ''bicycle'', ''cycling'', ''rower'', ''rad'', ''velo'',
                 ''mtb'', ''roadbike'']),
     (''run'', [''run'', ''running'', ''jog'', ''jogging'', ''bieganie'']),
     (''swim'', [''swim'', ''swimming'', ''pool'', ''open water'', ''basen'', plywanie]),
     (''walk'', [''walk'', ''walking'', ''spacer'', ''walking activity'']),
     (''hike'', [''hike'', ''hiking'', ''trek'', ''trekking'', ''mountain'', gory]),
     (''workout'', [''workout'', ''training'', ''gym'', ''fitness'', ''strength'', ''hiit''])]"

definition NORMALIZED_OUTPUT :: "(string \<times> string) list" where
  "NORMALIZED_OUTPUT =
    [(''ride'', ''Ride''), (''run'', ''Run''), (''swim'', ''Swim''), (''walk'', ''Walk''),
     (''hike'', ''Hike''), (''workout'', ''Workout''), (''other'', ''Other'')]"

section \<open>Verdicts and the label normalizer\<close>

text \<open>
  A detector returns an activity tag (a \<open>str\<close>) or the integer \<open>0\<close>, the "no signal"
  value. The argument of \<open>normalize_activity\<close> is such a value or Python's \<open>None\<close>,
  which is \<^const>\<open>None\<close> here. The normalizer takes \<open>str.lower\<close> as its first argument,
  so that what is proved of it holds for the Unicode \<open>str.lower\<close> of Python as well as
  for the model \<^const>\<open>lower\<close>, which the combiner passes to it.
\<close>

datatype verdict = NoSignal | Tag string

text \<open>\<open>not label\<close>: \<open>None\<close>, \<open>0\<close> and the empty string are falsy.\<close>

fun falsy :: "verdict option \<Rightarrow> bool" where
  "falsy None = True"
| "falsy (Some NoSignal) = True"
| "falsy (Some (Tag s)) = (s = [])"

fun normalize_activity :: "(string \<Rightarrow> string) \<Rightarrow> verdict option \<Rightarrow> string" where
  "normalize_activity str_lower (Some (Tag s)) =
     (if falsy (Some (Tag s)) then ''Other''
      else (case map_of NORMALIZED_OUTPUT (str_lower s) of
              Some l \<Rightarrow> l
            | None \<Rightarrow> ''Other''))"
| "normalize_activity str_lower label = ''Other''"

section \<open>The track document\<close>

text \<open>
  An \<open>xml.etree.ElementTree.Element\<close>: its tag as ElementTree holds it (\<open>{uri}local\<close>
  for a node in a namespace, \<open>local\<close> otherwise), its attributes, its text (\<open>None\<close>
  when the node has none) and its children in document order.
\<close>

datatype elem =
  Elem (tag: string) (attrib: "(string \<times> string) list") (elem_text: "string option")
       (children: "elem list")

text \<open>\<open>root.iter()\<close>: the node and all its descendants, in document order.\<close>

fun iter :: "elem \<Rightarrow> elem list" where
  "iter (Elem t a x cs) = Elem t a x cs # concat (map iter cs)"

text \<open>
  The tag of a node as ElementTree builds it from a namespace URI (if any) and a local
  name.
\<close>

fun qname :: "string option \<Rightarrow> string \<Rightarrow> string" where
  "qname None l = l"
| "qname (Some uri) l = ''{'' @ uri @ ''}'' @ l"

text \<open>
  The test ElementPath makes for the pattern \<open>{*}name\<close>: the tag is \<open>name\<close>, or ends
  with \<open>}name\<close>.
\<close>

definition wild_match :: "string \<Rightarrow> string \<Rightarrow> bool" where
  "wild_match name t = (t = name \<or> suffix (CHR ''}'' # name) t)"

text \<open>\<open>root.findall(".//{*}name")\<close>: the matching descendants of the root, the root excluded.\<close>

definition findall :: "string \<Rightarrow> elem \<Rightarrow> elem list" where
  "findall name rt =
     filter (\<lambda>e. wild_match name (tag e)) (concat (map iter (children rt)))"

text \<open>\<open>el.find("{*}name")\<close>: the first matching child.\<close>

definition find_child :: "string \<Rightarrow> elem \<Rightarrow> elem option" where
  "find_child name el = List.find (\<lambda>e. wild_match name (tag e)) (children el)"

section \<open>The metadata and keyword detectors\<close>

text \<open>
  The loop \<open>for act, keywords in ACTIVITY_MAP.items(): if any(k in text for k in keywords)\<close>:
  the first activity, in the table's order, one of whose keywords occurs in the text.
\<close>

fun first_activity :: "(string \<times> string list) list \<Rightarrow> string \<Rightarrow> string option" where
  "first_activity [] txt = None"
| "first_activity ((act, keywords) # rest) txt =
     (if list_ex (\<lambda>k. sublist k txt) keywords then Some act else first_activity rest txt)"

definition metadata_markers :: "string list" where
  "metadata_markers = [''activity'', ''sport'', ''type'', ''activitytype'', ''tracktype'',
     ''keywords'']"

definition is_marker_tag :: "string \<Rightarrow> bool" where
  "is_marker_tag t = list_ex (\<lambda>k. sublist k (lower t)) metadata_markers"

definition candidates :: "elem \<Rightarrow> string list" where
  "candidates rt =
     map (\<lambda>e. lower (case elem_text e of None \<Rightarrow> [] | Some s \<Rightarrow> s))
       (filter (\<lambda>e. is_marker_tag (tag e)) (iter rt))"

fun scan_candidates :: "string list \<Rightarrow> verdict" where
  "scan_candidates [] = NoSignal"
| "scan_candidates (txt # rest) =
     (case first_activity ACTIVITY_MAP txt of
        Some act \<Rightarrow> Tag act
      | None \<Rightarrow> scan_candidates rest)"

definition test_metadata :: "elem \<Rightarrow> verdict" where
  "test_metadata rt = scan_candidates (candidates rt)"

text \<open>The texts of one annotation field: \<open>if el.text\<close> drops a missing or empty text.\<close>

definition field_texts :: "elem \<Rightarrow> string \<Rightarrow> string list" where
  "field_texts rt name =
     concat (map (\<lambda>el. case elem_text el of
                          None \<Rightarrow> []
                        | Some s \<Rightarrow> if s = [] then [] else [lower s])
                 (findall name rt))"

definition texts :: "elem \<Rightarrow> string list" where
  "texts rt = concat (map (field_texts rt) [''name'', ''desc'', ''cmt'', ''keywords''])"

definition test_keywords :: "elem \<Rightarrow> verdict" where
  "test_keywords rt =
     (case first_activity ACTIVITY_MAP (join '' '' (texts rt)) of
        Some act \<Rightarrow> Tag act
      | None \<Rightarrow> NoSignal)"

section \<open>Track points\<close>

text \<open>
  The exceptions the engine can meet and does not catch: \<open>ValueError\<close> from \<open>math.sqrt\<close>
  on a negative number, \<open>TypeError\<close> from the difference of a naive and an aware
  \<open>datetime\<close>.
\<close>

datatype error = ValueError | TypeError

text \<open>
  A \<open>datetime\<close> as \<open>datetime.fromisoformat\<close> returns it: naive (the text carries no UTC
  offset) or aware, in both cases counted in microseconds (for an aware one, of UTC).
\<close>

datatype stamp = Naive int | Aware int

text \<open>
  A finite Python \<open>float\<close> is modelled by the real number it stands for; infinities and
  NaN are outside the model. The arithmetic on floats rounds, so it is not the
  arithmetic of the reals: the operations of the float library that the engine calls
  are parameters of the model, collected in a record. Nothing is assumed of them; a
  theorem stated for every such record holds for the arithmetic of Python.
\<close>

record arith =
  fadd :: "real \<Rightarrow> real \<Rightarrow> real"
  fsub :: "real \<Rightarrow> real \<Rightarrow> real"
  fmul :: "real \<Rightarrow> real \<Rightarrow> real"
  fdiv :: "real \<Rightarrow> real \<Rightarrow> real"
  fpow2 :: "real \<Rightarrow> real"
  fsin :: "real \<Rightarrow> real"
  fcos :: "real \<Rightarrow> real"
  fsqrt :: "real \<Rightarrow> real"
  fatan2 :: "real \<Rightarrow> real \<Rightarrow> real"
  fradians :: "real \<Rightarrow> real"
  fseconds :: "int \<Rightarrow> real"

text \<open>
  The fields stand for \<open>x + y\<close>, \<open>x - y\<close>, \<open>x * y\<close>, \<open>x / y\<close>, \<open>x ** 2\<close>, \<open>math.sin\<close>,
  \<open>math.cos\<close>, \<open>math.sqrt\<close> (on an argument that is not negative), \<open>math.atan2\<close>,
  \<open>math.radians\<close>, and \<open>timedelta.total_seconds()\<close> of a difference of that many
  microseconds.

  \<open>(b - a).total_seconds()\<close>
\<close>

fun total_seconds_between :: "arith \<Rightarrow> stamp \<Rightarrow> stamp \<Rightarrow> error + real" where
  "total_seconds_between A (Naive b) (Naive a) = Inr (fseconds A (b - a))"
| "total_seconds_between A (Aware b) (Aware a) = Inr (fseconds A (b - a))"
| "total_seconds_between A b a = Inl TypeError"

type_synonym point = "real \<times> real \<times> stamp"

text \<open>
  The two library parsers are parameters of the model as well: \<open>float_of\<close> stands for
  \<open>float(s)\<close> and \<open>fromisoformat\<close> for \<open>datetime.fromisoformat(s)\<close>, with \<open>None\<close> where
  the call raises.

  One track-point node: the body of the loop of \<open>extract_points\<close>. A missing text of
  the time node makes \<open>time_el.text.replace\<close> raise inside the \<open>try\<close>, so the point is
  skipped like one that does not parse.
\<close>

definition point_of ::
  "(string \<Rightarrow> real option) \<Rightarrow> (string \<Rightarrow> stamp option) \<Rightarrow> elem \<Rightarrow> point option" where
  "point_of float_of fromisoformat trkpt =
     (case (map_of (attrib trkpt) ''lat'', map_of (attrib trkpt) ''lon'',
            find_child ''time'' trkpt) of
        (Some lat, Some lon, Some time_el) \<Rightarrow>
          if lat \<noteq> [] \<and> lon \<noteq> [] then
            (case elem_text time_el of
               None \<Rightarrow> None
             | Some s \<Rightarrow>
                 (case fromisoformat (replace ''Z'' ''+00:00'' s) of
                    None \<Rightarrow> None
                  | Some t \<Rightarrow>
                      (case (float_of lat, float_of lon) of
                         (Some la, Some lo) \<Rightarrow> Some (la, lo, t)
                       | _ \<Rightarrow> None)))
          else None
      | _ \<Rightarrow> None)"

definition extract_points ::
  "(string \<Rightarrow> real option) \<Rightarrow> (string \<Rightarrow> stamp option) \<Rightarrow> elem \<Rightarrow> point list" where
  "extract_points float_of fromisoformat rt =
     List.map_filter (point_of float_of fromisoformat) (findall ''trkpt'' rt)"

section \<open>The geodesic distance\<close>

text \<open>\<open>math.sqrt\<close> raises on a negative argument.\<close>

definition py_sqrt :: "arith \<Rightarrow> real \<Rightarrow> error + real" where
  "py_sqrt A x = (if x < 0 then Inl ValueError else Inr (fsqrt A x))"

text \<open>The value \<open>a\<close> of \<open>haversine\<close>, then the function.\<close>

definition haversine_a :: "arith \<Rightarrow> real \<Rightarrow> real \<Rightarrow> real \<Rightarrow> real \<Rightarrow> real" where
  "haversine_a A lat1 lon1 lat2 lon2 =
     (let phi1 = fradians A lat1; phi2 = fradians A lat2;
          dphi = fradians A (fsub A lat2 lat1);
          dlambda = fradians A (fsub A lon2 lon1)
      in fadd A (fpow2 A (fsin A (fdiv A dphi 2)))
           (fmul A (fmul A (fcos A phi1) (fcos A phi2))
                   (fpow2 A (fsin A (fdiv A dlambda 2)))))"

definition haversine :: "arith \<Rightarrow> real \<Rightarrow> real \<Rightarrow> real \<Rightarrow> real \<Rightarrow> error + real" where
  "haversine A lat1 lon1 lat2 lon2 =
     (let R = 6371000; a = haversine_a A lat1 lon1 lat2 lon2 in
      case py_sqrt A a of
        Inl e \<Rightarrow> Inl e
      | Inr sa \<Rightarrow>
          (case py_sqrt A (fsub A 1 a) of
             Inl e \<Rightarrow> Inl e
           | Inr sb \<Rightarrow> Inr (fmul A (2 * R) (fatan2 A sa sb))))"

section \<open>The kinematic detector\<close>

text \<open>The loop \<open>for i in range(1, len(points))\<close> that adds up the legs of the track.\<close>

fun sum_legs :: "arith \<Rightarrow> real \<Rightarrow> point list \<Rightarrow> error + real" where
  "sum_legs A total_dist (p # q # ps) =
     (case haversine A (fst p) (fst (snd p)) (fst q) (fst (snd q)) of
        Inl e \<Rightarrow> Inl e
      | Inr d \<Rightarrow> sum_legs A (fadd A total_dist d) (q # ps))"
| "sum_legs A total_dist ps = Inr total_dist"

definition has_depth :: "elem \<Rightarrow> bool" where
  "has_depth rt = list_ex (\<lambda>e. sublist ''depth'' (lower (tag e))) (iter rt)"

text \<open>The speed bands, in the order of the source.\<close>

definition heuristic :: "arith \<Rightarrow> real \<Rightarrow> real \<Rightarrow> verdict" where
  "heuristic A total_dist total_time =
     (let avg_speed_kmh = fdiv A (fdiv A total_dist 1000) (fdiv A total_time 3600) in
      if avg_speed_kmh > 12 then Tag ''ride''
      else if 7 < avg_speed_kmh \<and> avg_speed_kmh \<le> 12 then Tag ''run''
      else if 4 < avg_speed_kmh \<and> avg_speed_kmh \<le> 7 then Tag ''walk''
      else if avg_speed_kmh \<le> 4 \<and> total_dist > 5000 then Tag ''hike''
      else if total_time < 1800 \<and> total_dist < 2000 then Tag ''workout''
      else NoSignal)"

definition test_data ::
  "arith \<Rightarrow> (string \<Rightarrow> real option) \<Rightarrow> (string \<Rightarrow> stamp option) \<Rightarrow> elem
     \<Rightarrow> error + verdict" where
  "test_data A float_of fromisoformat rt =
     (if has_depth rt then Inr (Tag ''swim'')
      else
        let points = extract_points float_of fromisoformat rt in
        if length points < 10 then Inr NoSignal
        else
          (case total_seconds_between A (snd (snd (last points))) (snd (snd (hd points))) of
             Inl e \<Rightarrow> Inl e
           | Inr total_time \<Rightarrow>
               (case sum_legs A 0 points of
                  Inl e \<Rightarrow> Inl e
                | Inr total_dist \<Rightarrow>
                    if total_time \<le> 0 then Inr NoSignal
                    else Inr (heuristic A total_dist total_time))))"

section \<open>The decision combiner\<close>

text \<open>
  \<open>Counter(results)\<close>: the distinct values with their counts, in the order of their
  first occurrence.
\<close>

fun counter_add :: "('a \<times> nat) list \<Rightarrow> 'a \<Rightarrow> ('a \<times> nat) list" where
  "counter_add [] x = [(x, 1)]"
| "counter_add ((y, n) # rest) x =
     (if y = x then (y, n + 1) # rest else (y, n) # counter_add rest x)"

definition Counter :: "'a list \<Rightarrow> ('a \<times> nat) list" where
  "Counter xs = foldl counter_add [] xs"

text \<open>
  \<open>counter.most_common(1)[0]\<close> on a non-empty counter: the first entry, in the
  counter's order, that has the greatest count.
\<close>

fun max_count :: "('a \<times> nat) \<Rightarrow> ('a \<times> nat) list \<Rightarrow> ('a \<times> nat)" where
  "max_count best [] = best"
| "max_count best (x # xs) = max_count (if snd best < snd x then x else best) xs"

fun most_common1 :: "('a \<times> nat) list \<Rightarrow> ('a \<times> nat) option" where
  "most_common1 [] = None"
| "most_common1 (x # xs) = Some (max_count x xs)"

text \<open>The vote over the three verdicts, then the fallback loop over \<open>[r1, r2, r3]\<close>.\<close>

definition fallback :: "verdict list \<Rightarrow> string" where
  "fallback rs =
     (case List.find (\<lambda>r. r \<noteq> NoSignal) rs of
        Some r \<Rightarrow> normalize_activity lower (Some r)
      | None \<Rightarrow> ''Other'')"

definition decide :: "verdict \<Rightarrow> verdict \<Rightarrow> verdict \<Rightarrow> string" where
  "decide r1 r2 r3 =
     (let results = filter (\<lambda>r. r \<noteq> NoSignal) [r1, r2, r3] in
      case most_common1 (Counter results) of
        Some (best, votes) \<Rightarrow>
          if 2 \<le> votes then normalize_activity lower (Some best) else fallback [r1, r2, r3]
      | None \<Rightarrow> fallback [r1, r2, r3])"

text \<open>
  \<open>determine_gpx_activity\<close> from the parsed root on: an exception of the kinematic
  detector is not caught and ends the call.
\<close>

definition determine_gpx_activity ::
  "arith \<Rightarrow> (string \<Rightarrow> real option) \<Rightarrow> (string \<Rightarrow> stamp option) \<Rightarrow> elem
     \<Rightarrow> error + string" where
  "determine_gpx_activity A float_of fromisoformat rt =
     (let r1 = test_metadata rt; r2 = test_keywords rt in
      case test_data A float_of fromisoformat rt of
        Inl e \<Rightarrow> Inl e
      | Inr r3 \<Rightarrow> Inr (decide r1 r2 r3))"

section \<open>Two arithmetics\<close>

text \<open>\<open>math.atan2(y, x)\<close> on the reals.\<close>

definition atan2 :: "real \<Rightarrow> real \<Rightarrow> real" where
  "atan2 y x =
     (if 0 < x then arctan (y / x)
      else if x < 0 then (if 0 \<le> y then arctan (y / x) + pi else arctan (y / x) - pi)
      else if 0 < y then pi / 2
      else if y < 0 then - (pi / 2)
      else 0)"

text \<open>
  The arithmetic of the reals, without rounding. It is not the arithmetic of the
  program; it serves to say what the formulas give when nothing is rounded.
\<close>

definition exact :: arith where
  "exact = \<lparr>fadd = (\<lambda>x y. x + y), fsub = (\<lambda>x y. x - y), fmul = (\<lambda>x y. x * y),
            fdiv = (\<lambda>x y. x / y), fpow2 = (\<lambda>x. x\<^sup>2), fsin = sin, fcos = cos, fsqrt = sqrt,
            fatan2 = atan2, fradians = (\<lambda>x. x * (pi / 180)),
            fseconds = (\<lambda>n. real_of_int n / 1000000)\<rparr>"

text \<open>
  An excerpt of the arithmetic of Python on IEEE doubles, enough for the sample tracks
  below: on the listed arguments each operation has the double that Python returns,
  written as a fraction; on other arguments it has the exact result, which is the
  result of Python whenever the exact result is a double (as it is for every
  argument that the sample tracks meet and that is not listed).
\<close>

text \<open>\<open>x ** 2\<close>\<close>

definition ieee_pow2 :: "real \<Rightarrow> real" where
  "ieee_pow2 x =
     (if x = - 5014239404989977 / 36028797018963968
        then 1395694493897217 / 72057594037927936
      else if x = 5030505218395169 / 576460752303423488
        then 2809528471237169 / 36893488147419103232
      else if x = - 5030505218395169 / 576460752303423488
        then 2809528471237169 / 36893488147419103232
      else x\<^sup>2)"

text \<open>\<open>math.sin(x)\<close>\<close>

definition ieee_sin :: "real \<Rightarrow> real" where
  "ieee_sin x =
     (if x = - 5030569068109113 / 36028797018963968
        then - 5014239404989977 / 36028797018963968
      else if x = 884279719003555 / 562949953421312
        then 1
      else if x = 5030569068109113 / 576460752303423488
        then 5030505218395169 / 576460752303423488
      else if x = - 5030569068109113 / 576460752303423488
        then - 5030505218395169 / 576460752303423488
      else sin x)"

text \<open>\<open>math.cos(x)\<close>\<close>

definition ieee_cos :: "real \<Rightarrow> real" where
  "ieee_cos x =
     (if x = 5030569068109113 / 36028797018963968
        then 4459770905381437 / 4503599627370496
      else if x = - 5030569068109113 / 36028797018963968
        then 4459770905381437 / 4503599627370496
      else cos x)"

text \<open>\<open>math.sqrt(x)\<close>\<close>

definition ieee_sqrt :: "real \<Rightarrow> real" where
  "ieee_sqrt x =
     (if x = 4503599627370497 / 4503599627370496
        then 1
      else if x = 2809528471237169 / 36893488147419103232
        then 5030505218395169 / 576460752303423488
      else if x = 9006513334704069 / 9007199254740992
        then 9006856288192973 / 9007199254740992
      else sqrt x)"

text \<open>\<open>math.radians(x)\<close>\<close>

definition ieee_radians :: "real \<Rightarrow> real" where
  "ieee_radians x =
     (if x = 8
        then 5030569068109113 / 36028797018963968
      else if x = - 8
        then - 5030569068109113 / 36028797018963968
      else if x = - 16
        then - 5030569068109113 / 18014398509481984
      else if x = 180
        then 884279719003555 / 281474976710656
      else if x = 1
        then 5030569068109113 / 288230376151711744
      else if x = - 1
        then - 5030569068109113 / 288230376151711744
      else x * (pi / 180))"

text \<open>\<open>x + y\<close>\<close>

definition ieee_add :: "real \<Rightarrow> real \<Rightarrow> real" where
  "ieee_add x y =
     (if x = 1395694493897217 / 72057594037927936 \<and>
         y = 8832737443003841 / 9007199254740992
        then 4503599627370497 / 4503599627370496
      else if x = 7641257174711981 / 34359738368 \<and>
         y = 7641257174711981 / 68719476736
        then 2865471440516993 / 8589934592
      else if x = 2865471440516993 / 8589934592 \<and>
         y = 7641257174711981 / 68719476736
        then 7641257174711981 / 17179869184
      else if x = 7641257174711981 / 17179869184 \<and>
         y = 7641257174711981 / 68719476736
        then 1193946433548747 / 2147483648
      else if x = 1193946433548747 / 2147483648 \<and>
         y = 7641257174711981 / 68719476736
        then 2865471440516993 / 4294967296
      else if x = 2865471440516993 / 4294967296 \<and>
         y = 7641257174711981 / 68719476736
        then 835762503484123 / 1073741824
      else if x = 835762503484123 / 1073741824 \<and>
         y = 7641257174711981 / 68719476736
        then 3820628587355991 / 4294967296
      else if x = 3820628587355991 / 4294967296 \<and>
         y = 7641257174711981 / 68719476736
        then 2149103580387745 / 2147483648
      else x + y)"

text \<open>\<open>x - y\<close>\<close>

definition ieee_sub :: "real \<Rightarrow> real \<Rightarrow> real" where
  "ieee_sub x y =
     (if x = 1 \<and>
         y = 2809528471237169 / 36893488147419103232
        then 9006513334704069 / 9007199254740992
      else x - y)"

text \<open>\<open>x * y\<close>\<close>

definition ieee_mul :: "real \<Rightarrow> real \<Rightarrow> real" where
  "ieee_mul x y =
     (if x = 4459770905381437 / 4503599627370496 \<and>
         y = 4459770905381437 / 4503599627370496
        then 8832737443003841 / 9007199254740992
      else if x = 12742000 \<and>
         y = 5030569068109113 / 576460752303423488
        then 7641257174711981 / 68719476736
      else x * y)"

text \<open>\<open>x / y\<close>\<close>

definition ieee_div :: "real \<Rightarrow> real \<Rightarrow> real" where
  "ieee_div x y =
     (if x = 2149103580387745 / 2147483648 \<and>
         y = 1000
        then 2200682066317051 / 2199023255552
      else if x = 2200682066317051 / 2199023255552 \<and>
         y = 100
        then 5633746089771651 / 562949953421312
      else if x = 60 \<and>
         y = 3600
        then 4803839602528529 / 288230376151711744
      else x / y)"

text \<open>\<open>math.atan2(x, y)\<close>\<close>

definition ieee_atan2 :: "real \<Rightarrow> real \<Rightarrow> real" where
  "ieee_atan2 x y =
     (if x = 5030505218395169 / 576460752303423488 \<and>
         y = 9006856288192973 / 9007199254740992
        then 5030569068109113 / 576460752303423488
      else atan2 x y)"

definition ieee_sample :: arith where
  "ieee_sample = \<lparr>fadd = ieee_add, fsub = ieee_sub, fmul = ieee_mul, fdiv = ieee_div,
                  fpow2 = ieee_pow2, fsin = ieee_sin, fcos = ieee_cos, fsqrt = ieee_sqrt,
                  fatan2 = ieee_atan2, fradians = ieee_radians,
                  fseconds = (\<lambda>n. real_of_int n / 1000000)\<rparr>"

section \<open>Sample inputs\<close>

text \<open>
  Excerpts of the two library parsers, enough for the examples below: the value Python
  gives on each listed string. A string that is not listed is treated as one that does
  not parse.
\<close>

definition float_sample :: "string \<Rightarrow> real option" where
  "float_sample = map_of [(''0'', 0), (''1'', 1), (''8'', 8), (''-8'', - 8), (''180'', 180),
     (''91'', 91), (''181'', 181)]"

definition iso_sample :: "string \<Rightarrow> stamp option" where
  "iso_sample = map_of
     [(''2024-01-01T00:00:00+00:00'', Aware 1704067200000000),
      (''2024-01-01T00:01:00+00:00'', Aware 1704067260000000),
      (''2024-01-05T04:00:00+00:00'', Aware 1704427200000000),
      (''2024-01-01Z00:00:00+00:00'', Aware 1704067200000000),
      (''2024-01-01T00:00:00'', Naive 1704067200000000)]"

definition trkpt :: "string \<Rightarrow> string \<Rightarrow> string \<Rightarrow> elem" where
  "trkpt lat lon t =
     Elem ''trkpt'' [(''lat'', lat), (''lon'', lon)] None [Elem ''time'' [] (Some t) []]"

definition gpx :: "elem list \<Rightarrow> elem" where
  "gpx cs = Elem ''gpx'' [] None cs"

text \<open>A type field and a description that both say hike, no track points.\<close>

definition doc_hike :: elem where
  "doc_hike = gpx [Elem ''type'' [] (Some ''hike'') [],
                   Elem ''desc'' [] (Some ''trekking the mountains'') []]"

text \<open>Three detectors that disagree: cycling by the type field, a jog by the description, a depth node.\<close>

definition doc_disagree :: elem where
  "doc_disagree = gpx [Elem ''type'' [] (Some ''Cycling'') [],
                       Elem ''desc'' [] (Some ''morning jog'') [],
                       Elem ''depth'' [] (Some ''2'') []]"

text \<open>A type field that says running, and a depth node.\<close>

definition doc_depth_run :: elem where
  "doc_depth_run = gpx [Elem ''type'' [] (Some ''running'') [],
                        Elem ''depth'' [] (Some ''3'') []]"

text \<open>Nothing but a depth node.\<close>

definition doc_depth_only :: elem where
  "doc_depth_only = gpx [Elem ''depth'' [] (Some ''3'') []]"

text \<open>Ten points at one place, a minute between the first and the last.\<close>

definition still_track :: "elem list" where
  "still_track = [Elem ''trk'' [] None
     (replicate 9 (trkpt ''0'' ''0'' ''2024-01-01T00:00:00Z'')
      @ [trkpt ''0'' ''0'' ''2024-01-01T00:01:00Z''])]"

definition doc_still :: elem where
  "doc_still = gpx still_track"

text \<open>The same track under a root whose namespace URI holds the word depth.\<close>

definition doc_ns_still :: elem where
  "doc_ns_still = Elem (qname (Some ''http://example.com/depth/v1'') ''gpx'') [] None still_track"

text \<open>Ten points at one place and at one time.\<close>

definition doc_frozen :: elem where
  "doc_frozen = gpx [Elem ''trk'' [] None
     (replicate 10 (trkpt ''0'' ''0'' ''2024-01-01T00:00:00Z''))]"

text \<open>
  Ten points along the equator, by turns at 0 and at 1 degree of longitude, a hundred
  hours between the first and the last.
\<close>

definition doc_moving :: elem where
  "doc_moving = gpx [Elem ''trk'' [] None
     (concat (replicate 4 [trkpt ''0'' ''0'' ''2024-01-01T00:00:00Z'',
                           trkpt ''0'' ''1'' ''2024-01-01T00:00:00Z''])
      @ [trkpt ''0'' ''0'' ''2024-01-01T00:00:00Z'',
         trkpt ''0'' ''1'' ''2024-01-05T04:00:00Z''])]"

text \<open>
  Ten points by turns at 8 north, 0 east and at its antipode 8 south, 180 east, a
  minute between the first and the last.
\<close>

definition doc_antipodal :: elem where
  "doc_antipodal = gpx [Elem ''trk'' [] None
     (concat (replicate 4 [trkpt ''8'' ''0'' ''2024-01-01T00:00:00Z'',
                           trkpt ''-8'' ''180'' ''2024-01-01T00:00:00Z''])
      @ [trkpt ''8'' ''0'' ''2024-01-01T00:00:00Z'',
         trkpt ''-8'' ''180'' ''2024-01-01T00:01:00Z''])]"

text \<open>The still track, the first time without an offset and the last with one.\<close>

definition doc_mixed :: elem where
  "doc_mixed = gpx [Elem ''trk'' [] None
     (replicate 9 (trkpt ''0'' ''0'' ''2024-01-01T00:00:00'')
      @ [trkpt ''0'' ''0'' ''2024-01-01T00:01:00Z''])]"

text \<open>One point.\<close>

definition doc_one_point :: elem where
  "doc_one_point = gpx [trkpt ''0'' ''0'' ''2024-01-01T00:00:00Z'']"

text \<open>One point with coordinates beyond the poles and the date line.\<close>

definition doc_far :: elem where
  "doc_far = gpx [trkpt ''91'' ''181'' ''2024-01-01T00:00:00Z'']"

text \<open>One point whose time has a Z between the date and the hour as well as at the end.\<close>

definition doc_two_z :: elem where
  "doc_two_z = gpx [trkpt ''0'' ''0'' ''2024-01-01Z00:00:00Z'']"

text \<open>
  A document in the GPX namespace with a track segment of good and bad points: a point
  whose time is its second child, a latitude that is no number, a point without a time
  child, a time child without text, a point without a longitude, a time that is no
  timestamp, a point outside the namespace, and a way point.
\<close>

definition gpx_ns :: "string \<Rightarrow> string" where
  "gpx_ns l = qname (Some ''http://www.topografix.com/GPX/1/1'') l"

definition good_point :: elem where
  "good_point = Elem (gpx_ns ''trkpt'') [(''lat'', ''0''), (''lon'', ''1'')] None
     [Elem (gpx_ns ''ele'') [] (Some ''12'') [],
      Elem (gpx_ns ''time'') [] (Some ''2024-01-01T00:00:00Z'') []]"

definition no_time_point :: elem where
  "no_time_point = Elem (gpx_ns ''trkpt'') [(''lat'', ''0''), (''lon'', ''0'')] None
     [Elem (gpx_ns ''ele'') [] (Some ''2024-01-01T00:00:00Z'') []]"

definition doc_parse :: elem where
  "doc_parse = Elem (gpx_ns ''gpx'') [] None
     [Elem (gpx_ns ''trk'') [] None
        [Elem (gpx_ns ''trkseg'') [] None
           [good_point,
            Elem (gpx_ns ''trkpt'') [(''lat'', ''north''), (''lon'', ''0'')] None
              [Elem (gpx_ns ''time'') [] (Some ''2024-01-01T00:00:00Z'') []],
            no_time_point,
            Elem (gpx_ns ''trkpt'') [(''lat'', ''0''), (''lon'', ''0'')] None
              [Elem (gpx_ns ''time'') [] None []],
            Elem (gpx_ns ''trkpt'') [(''lat'', ''0'')] None
              [Elem (gpx_ns ''time'') [] (Some ''2024-01-01T00:00:00Z'') []],
            Elem (gpx_ns ''trkpt'') [(''lat'', ''0''), (''lon'', ''0'')] None
              [Elem (gpx_ns ''time'') [] (Some ''yesterday'') []],
            trkpt ''1'' ''0'' ''2024-01-01T00:01:00Z'',
            Elem (gpx_ns ''wpt'') [(''lat'', ''0''), (''lon'', ''0'')] None
              [Elem (gpx_ns ''time'') [] (Some ''2024-01-01T00:00:00Z'') []]]]]"

text \<open>A name and a description that hold one word each.\<close>

definition doc_open_water :: elem where
  "doc_open_water = gpx [Elem ''name'' [] (Some ''Open'') [],
                         Elem ''desc'' [] (Some ''water'') []]"

text \<open>Documents in a namespace whose URI holds a marker word.\<close>

definition doc_ns_activity :: elem where
  "doc_ns_activity =
     Elem (qname (Some ''http://example.com/activity/v1'') ''gpx'') [] None
       [Elem (qname (Some ''http://example.com/activity/v1'') ''note'') []
          (Some ''Running'') []]"

definition doc_ns_depth :: elem where
  "doc_ns_depth = Elem (qname (Some ''http://example.com/depth/v1'') ''gpx'') [] None []"

text \<open>The local name of a tag: what follows the last closing brace.\<close>

definition local_name :: "string \<Rightarrow> string" where
  "local_name t = rev (takeWhile (\<lambda>c. c \<noteq> CHR ''}'') (rev t))"

text \<open>
  An excerpt of the Unicode \<open>str.lower\<close>: the Kelvin sign, written by its UTF-8 bytes,
  is lowered to the letter k; elsewhere the excerpt is the model \<^const>\<open>lower\<close>.
\<close>

definition kelvin_hike :: string where
  "kelvin_hike = ''HI'' @ [char_of (0xE2 :: nat), char_of (0x84 :: nat), char_of (0xAA :: nat)]
     @ ''E''"

definition lower_sample :: "string \<Rightarrow> string" where
  "lower_sample s = (if s = kelvin_hike then ''hike'' else lower s)"

section \<open>The label normalizer is total\<close>

text \<open>
  Claim C7. The normalizer is a total function: on \<open>None\<close>, on the "no signal" value
  and on the empty string it returns Other; on any other string it returns the
  canonical label when the string lowered by \<open>str.lower\<close> is one of the six known tags,
  and Other for every other string. This holds whatever \<open>str.lower\<close> returns. Being a
  function into the labels, the normalizer raises no error.
\<close>

theorem normalize_activity_total:
  "normalize_activity str_lower None = ''Other'' \<and>
   normalize_activity str_lower (Some NoSignal) = ''Other'' \<and>
   normalize_activity str_lower (Some (Tag [])) = ''Other'' \<and>
   normalize_activity str_lower (Some (Tag s)) =
     (if s = [] then ''Other''
      else if str_lower s = ''ride'' then ''Ride''
      else if str_lower s = ''run'' then ''Run''
      else if str_lower s = ''swim'' then ''Swim''
      else if str_lower s = ''walk'' then ''Walk''
      else if str_lower s = ''hike'' then ''Hike''
      else if str_lower s = ''workout'' then ''Workout''
      else ''Other'')"
  by (auto simp add: NORMALIZED_OUTPUT_def)

theorem normalize_activity_total_witness:
  "normalize_activity lower (Some (Tag ''RIDE'')) = ''Ride'' \<and>
   normalize_activity lower (Some (Tag ''sail'')) = ''Other'' \<and>
   normalize_activity lower_sample (Some (Tag kelvin_hike)) = ''Hike''"
proof -
  have "lower ''RIDE'' = ''ride''" "lower ''sail'' = ''sail''"
    by (simp_all add: lower_def lower_char_def)
  moreover have "lower_sample kelvin_hike = ''hike''" "kelvin_hike \<noteq> []"
    by (simp_all add: lower_sample_def kelvin_hike_def)
  ultimately show ?thesis
    using normalize_activity_total [of lower "''RIDE''"]
      normalize_activity_total [of lower "''sail''"]
      normalize_activity_total [of lower_sample kelvin_hike]
    by simp
qed

section \<open>The distance on the reals and in the sample arithmetic\<close>

text \<open>
  In the arithmetic of the reals the argument of the two square roots lies between 0
  and 1 for all coordinates, so \<open>haversine\<close> returns a distance; the distance of a
  point to itself is 0, the distance is symmetric and it is not negative.
\<close>

lemma cos_prod: "cos x * cos y = (cos (y - x) + cos (x + y)) / (2::real)"
  by (simp add: cos_add cos_diff)

lemma cos_as_sin_half: "cos (x::real) = 1 - 2 * (sin (x / 2))\<^sup>2"
  using cos_double_sin [of "x / 2"] by simp

lemma haversine_a_exact:
  "haversine_a exact lat1 lon1 lat2 lon2 =
     (sin ((lat2 - lat1) * (pi / 180) / 2))\<^sup>2
     + cos (lat1 * (pi / 180)) * cos (lat2 * (pi / 180))
       * (sin ((lon2 - lon1) * (pi / 180) / 2))\<^sup>2"
  by (simp add: haversine_a_def exact_def Let_def)

lemma haversine_a_convex:
  "haversine_a exact lat1 lon1 lat2 lon2 =
     (sin ((lat2 - lat1) * (pi / 180) / 2))\<^sup>2
       * (1 - (sin ((lon2 - lon1) * (pi / 180) / 2))\<^sup>2)
     + (sin ((lon2 - lon1) * (pi / 180) / 2))\<^sup>2
       * ((1 + cos (lat1 * (pi / 180) + lat2 * (pi / 180))) / 2)"
proof -
  define p1 where "p1 = lat1 * (pi / 180)"
  define p2 where "p2 = lat2 * (pi / 180)"
  define h where "h = (sin ((lon2 - lon1) * (pi / 180) / 2))\<^sup>2"
  have d: "(lat2 - lat1) * (pi / 180) = p2 - p1"
    by (simp add: p1_def p2_def left_diff_distrib)
  have cp: "cos p1 * cos p2 = (cos (p2 - p1) + cos (p1 + p2)) / 2"
    by (rule cos_prod)
  have ch: "cos (p2 - p1) = 1 - 2 * (sin ((p2 - p1) / 2))\<^sup>2"
    by (rule cos_as_sin_half)
  have "haversine_a exact lat1 lon1 lat2 lon2
          = (sin ((p2 - p1) / 2))\<^sup>2 + cos p1 * cos p2 * h"
    unfolding haversine_a_exact d by (simp add: p1_def p2_def h_def)
  also have "\<dots> = (sin ((p2 - p1) / 2))\<^sup>2 * (1 - h) + h * ((1 + cos (p1 + p2)) / 2)"
    unfolding cp ch by (simp add: field_simps)
  finally show ?thesis
    unfolding d [symmetric] by (simp add: p1_def p2_def h_def)
qed

lemma haversine_a_range:
  "0 \<le> haversine_a exact lat1 lon1 lat2 lon2 \<and> haversine_a exact lat1 lon1 lat2 lon2 \<le> 1"
proof -
  define s where "s = (sin ((lat2 - lat1) * (pi / 180) / 2))\<^sup>2"
  define h where "h = (sin ((lon2 - lon1) * (pi / 180) / 2))\<^sup>2"
  define c where "c = (1 + cos (lat1 * (pi / 180) + lat2 * (pi / 180))) / 2"
  have s: "0 \<le> s" "s \<le> 1" by (simp_all add: s_def abs_square_le_1)
  have h: "0 \<le> h" "h \<le> 1" by (simp_all add: h_def abs_square_le_1)
  have "- 1 \<le> cos (lat1 * (pi / 180) + lat2 * (pi / 180))" by (rule cos_ge_minus_one)
  then have "0 \<le> 1 + cos (lat1 * (pi / 180) + lat2 * (pi / 180))" by linarith
  then have c_lo: "0 \<le> c" by (simp add: c_def)
  have c_hi: "c \<le> 1" by (simp add: c_def)
  have a: "haversine_a exact lat1 lon1 lat2 lon2 = s * (1 - h) + h * c"
    unfolding s_def h_def c_def by (rule haversine_a_convex)
  have lo: "0 \<le> s * (1 - h) + h * c" using s h c_lo by simp
  have "s * (1 - h) \<le> 1 * (1 - h)" using s h by (intro mult_right_mono) simp_all
  moreover have "h * c \<le> h * 1" using h c_hi by (intro mult_left_mono) simp_all
  ultimately have hi: "s * (1 - h) + h * c \<le> 1" by simp
  show ?thesis using a lo hi by simp
qed

lemma atan2_nonneg: "0 \<le> y \<Longrightarrow> 0 \<le> x \<Longrightarrow> 0 \<le> atan2 y x"
  by (auto simp: atan2_def)

lemma haversine_exact_total:
  "haversine exact lat1 lon1 lat2 lon2 =
     Inr (2 * 6371000 * atan2 (sqrt (haversine_a exact lat1 lon1 lat2 lon2))
                            (sqrt (1 - haversine_a exact lat1 lon1 lat2 lon2)))"
proof -
  have "fsqrt exact = sqrt" "fsub exact = (\<lambda>x y. x - y)" "fmul exact = (\<lambda>x y. x * y)"
    "fatan2 exact = atan2"
    by (simp_all add: exact_def)
  then show ?thesis
    using haversine_a_range [of lat1 lon1 lat2 lon2]
    by (simp add: haversine_def py_sqrt_def Let_def)
qed

lemma haversine_exact_same: "haversine exact lat lon lat lon = Inr 0"
  by (simp add: haversine_exact_total haversine_a_exact atan2_def)

lemma haversine_exact_sym:
  "haversine exact lat1 lon1 lat2 lon2 = haversine exact lat2 lon2 lat1 lon1"
proof -
  have "sin ((lat1 - lat2) * (pi / 180) / 2) = - sin ((lat2 - lat1) * (pi / 180) / 2)"
    by (metis minus_diff_eq minus_divide_left mult_minus_left sin_minus)
  moreover have "sin ((lon1 - lon2) * (pi / 180) / 2) = - sin ((lon2 - lon1) * (pi / 180) / 2)"
    by (metis minus_diff_eq minus_divide_left mult_minus_left sin_minus)
  ultimately have "haversine_a exact lat1 lon1 lat2 lon2 = haversine_a exact lat2 lon2 lat1 lon1"
    by (simp add: haversine_a_exact)
  then show ?thesis by (simp add: haversine_exact_total)
qed

lemma haversine_exact_nonneg: "haversine exact lat1 lon1 lat2 lon2 = Inr d \<Longrightarrow> 0 \<le> d"
  using haversine_a_range [of lat1 lon1 lat2 lon2]
  by (auto simp: haversine_exact_total intro!: atan2_nonneg mult_nonneg_nonneg)

text \<open>The sample arithmetic at the arguments of the sample tracks.\<close>

lemma ieee_sel:
  "fadd ieee_sample = ieee_add" "fsub ieee_sample = ieee_sub" "fmul ieee_sample = ieee_mul"
  "fdiv ieee_sample = ieee_div" "fpow2 ieee_sample = ieee_pow2" "fsin ieee_sample = ieee_sin"
  "fcos ieee_sample = ieee_cos" "fsqrt ieee_sample = ieee_sqrt"
  "fatan2 ieee_sample = ieee_atan2" "fradians ieee_sample = ieee_radians"
  "fseconds ieee_sample = (\<lambda>n. real_of_int n / 1000000)"
  by (simp_all add: ieee_sample_def)

lemmas ieee_defs = ieee_sel ieee_add_def ieee_sub_def ieee_mul_def ieee_div_def
  ieee_pow2_def ieee_sin_def ieee_cos_def ieee_sqrt_def ieee_atan2_def ieee_radians_def

lemma haversine_a_antipodal:
  "haversine_a ieee_sample 8 0 (- 8) 180 = 4503599627370497 / 4503599627370496"
  by (simp add: haversine_a_def Let_def ieee_defs)

lemma haversine_antipodal: "haversine ieee_sample 8 0 (- 8) 180 = Inl ValueError"
  by (simp add: haversine_def haversine_a_antipodal py_sqrt_def Let_def ieee_defs)

lemma haversine_one_degree:
  "haversine ieee_sample 0 0 0 1 = Inr (7641257174711981 / 68719476736)"
  "haversine ieee_sample 0 1 0 0 = Inr (7641257174711981 / 68719476736)"
  by (simp_all add: haversine_def haversine_a_def py_sqrt_def Let_def ieee_defs)

lemma haversine_same_place: "haversine ieee_sample 0 0 0 0 = Inr 0"
  by (simp add: haversine_def haversine_a_def py_sqrt_def Let_def ieee_defs atan2_def)

text \<open>
  Claim C8, where the code fails it. In the arithmetic of Python the value \<open>a\<close> for the
  points 8 north, 0 east and 8 south, 180 east, which are antipodes, is rounded to
  1 + 1/2^52, so \<open>1 - a\<close> is negative and \<open>math.sqrt\<close> raises: the function returns no
  distance for this pair of valid points, although the formula on the reals gives one
  for every pair.
\<close>

theorem haversine_antipodal_raises:
  "haversine_a ieee_sample 8 0 (- 8) 180 = 1 + 1 / 2 ^ 52 \<and>
   haversine ieee_sample 8 0 (- 8) 180 = Inl ValueError \<and>
   (\<exists>d. haversine exact 8 0 (- 8) 180 = Inr d \<and> 0 \<le> d \<and>
        haversine exact (- 8) 180 8 0 = Inr d)"
proof -
  obtain d where d: "haversine exact 8 0 (- 8) 180 = Inr d"
    using haversine_exact_total [of 8 0 "- 8" 180] by blast
  then have "0 \<le> d" by (rule haversine_exact_nonneg)
  moreover have "haversine exact (- 8) 180 8 0 = Inr d"
    using d haversine_exact_sym [of 8 0 "- 8" 180] by simp
  ultimately show ?thesis
    using d by (simp add: haversine_a_antipodal haversine_antipodal)
qed

section \<open>When the kinematic detector returns\<close>

text \<open>
  The distance loop returns exactly when \<open>haversine\<close> returns on every pair of
  consecutive points, and then it has added the distances to its start value, from
  left to right.
\<close>

lemma sum_legs_legs:
  "list_all2 (\<lambda>(p, q) d. haversine A (fst p) (fst (snd p)) (fst q) (fst (snd q)) = Inr d)
     (zip ps (tl ps)) ds \<Longrightarrow>
   sum_legs A acc ps = Inr (foldl (fadd A) acc ds)"
proof (induction A acc ps arbitrary: ds rule: sum_legs.induct)
  case (1 A acc p q ps)
  from "1.prems" obtain d ds' where ds: "ds = d # ds'"
    and d: "haversine A (fst p) (fst (snd p)) (fst q) (fst (snd q)) = Inr d"
    and rest: "list_all2 (\<lambda>(p, q) d. haversine A (fst p) (fst (snd p)) (fst q) (fst (snd q)) = Inr d)
        (zip (q # ps) (tl (q # ps))) ds'"
    by (auto simp: list_all2_Cons1)
  from "1.IH" [OF d rest] d ds show ?case by simp
qed simp_all

lemma sum_legs_Inr:
  "sum_legs A acc ps = Inr tot \<Longrightarrow>
   \<exists>ds. list_all2 (\<lambda>(p, q) d. haversine A (fst p) (fst (snd p)) (fst q) (fst (snd q)) = Inr d)
          (zip ps (tl ps)) ds \<and> tot = foldl (fadd A) acc ds"
proof (induction A acc ps arbitrary: tot rule: sum_legs.induct)
  case (1 A acc p q ps)
  from "1.prems" obtain d where
    d: "haversine A (fst p) (fst (snd p)) (fst q) (fst (snd q)) = Inr d"
    and r: "sum_legs A (fadd A acc d) (q # ps) = Inr tot"
    by (auto split: sum.splits)
  from "1.IH" [OF d r] obtain ds where
    ds: "list_all2 (\<lambda>(p, q) d. haversine A (fst p) (fst (snd p)) (fst q) (fst (snd q)) = Inr d)
           (zip (q # ps) (tl (q # ps))) ds" "tot = foldl (fadd A) (fadd A acc d) ds"
    by blast
  have "list_all2 (\<lambda>(p, q) d. haversine A (fst p) (fst (snd p)) (fst q) (fst (snd q)) = Inr d)
           (zip (p # q # ps) (tl (p # q # ps))) (d # ds)"
    using d ds(1) by simp
  moreover have "tot = foldl (fadd A) acc (d # ds)" using ds(2) by simp
  ultimately show ?case by blast
qed simp_all

text \<open>
  The kinematic detector raises exactly when there is no depth node, ten or more points
  parse, and either the first and the last time cannot be subtracted, one being naive
  and the other aware, or the distance loop raises; the combiner does not catch it.
\<close>

lemma test_data_raises_iff:
  "test_data A F T doc = Inl e \<longleftrightarrow>
     \<not> has_depth doc \<and> 10 \<le> length (extract_points F T doc) \<and>
     (total_seconds_between A (snd (snd (last (extract_points F T doc))))
        (snd (snd (hd (extract_points F T doc)))) = Inl e \<or>
      (\<exists>t. total_seconds_between A (snd (snd (last (extract_points F T doc))))
              (snd (snd (hd (extract_points F T doc)))) = Inr t) \<and>
      sum_legs A 0 (extract_points F T doc) = Inl e)"
  by (auto simp: test_data_def Let_def split: sum.splits)

lemma test_data_mixed_stamps:
  "test_data ieee_sample float_sample iso_sample doc_mixed = Inl TypeError"
proof -
  have nd: "\<not> has_depth doc_mixed" by code_simp
  have ep: "extract_points float_sample iso_sample doc_mixed =
      replicate 9 (0, 0, Naive 1704067200000000) @ [(0, 0, Aware 1704067260000000)]"
    by code_simp
  show ?thesis by (simp add: test_data_def nd ep)
qed

lemma test_data_antipodal:
  "test_data ieee_sample float_sample iso_sample doc_antipodal = Inl ValueError"
proof -
  have nd: "\<not> has_depth doc_antipodal" by code_simp
  have ep: "extract_points float_sample iso_sample doc_antipodal =
      concat (replicate 4 [(8, 0, Aware 1704067200000000), (- 8, 180, Aware 1704067200000000)])
      @ [(8, 0, Aware 1704067200000000), (- 8, 180, Aware 1704067260000000)]"
    by code_simp
  show ?thesis
    by (simp add: test_data_def nd ep numeral_eq_Suc haversine_antipodal ieee_sel)
qed

section \<open>The vote of the combiner\<close>

lemma decide_cases:
  "decide r1 r2 r3 =
     (if r1 \<noteq> NoSignal \<and> (r1 = r2 \<or> r1 = r3) then normalize_activity lower (Some r1)
      else if r2 \<noteq> NoSignal \<and> r2 = r3 then normalize_activity lower (Some r2)
      else if r1 \<noteq> NoSignal then normalize_activity lower (Some r1)
      else if r2 \<noteq> NoSignal then normalize_activity lower (Some r2)
      else if r3 \<noteq> NoSignal then normalize_activity lower (Some r3)
      else ''Other'')"
  by (simp add: decide_def Counter_def fallback_def)

lemma determine_gpx_activity_Inr:
  "test_data A F T doc = Inr r3 \<Longrightarrow>
   determine_gpx_activity A F T doc = Inr (decide (test_metadata doc) (test_keywords doc) r3)"
  by (simp add: determine_gpx_activity_def)

lemma determine_gpx_activity_Inl:
  "test_data A F T doc = Inl e \<Longrightarrow> determine_gpx_activity A F T doc = Inl e"
  by (simp add: determine_gpx_activity_def)

text \<open>
  Claim C1, as the code has it. For every document on which the kinematic detector
  returns a verdict, the combiner applies \<open>decide\<close> to the verdicts of the metadata,
  keyword and kinematic detectors, in this order. A value other than "no signal" that
  two of the three verdicts share gives its normalized label; when no such value has
  two votes the first verdict other than "no signal", in the order r1, r2, r3, gives
  its label, and Other when there is none; three "no signal" verdicts give Other.
\<close>

theorem classify_vote:
  assumes "test_data A F T doc = Inr r3"
    and "r1 = test_metadata doc" and "r2 = test_keywords doc"
  shows "determine_gpx_activity A F T doc = Inr (decide r1 r2 r3) \<and>
    (\<forall>v. v \<noteq> NoSignal \<and> 2 \<le> count_list [r1, r2, r3] v \<longrightarrow>
         decide r1 r2 r3 = normalize_activity lower (Some v)) \<and>
    ((\<forall>v. v \<noteq> NoSignal \<longrightarrow> count_list [r1, r2, r3] v < 2) \<longrightarrow>
         decide r1 r2 r3 =
           (case filter (\<lambda>r. r \<noteq> NoSignal) [r1, r2, r3] of
              [] \<Rightarrow> ''Other''
            | r # _ \<Rightarrow> normalize_activity lower (Some r))) \<and>
    (r1 = NoSignal \<and> r2 = NoSignal \<and> r3 = NoSignal \<longrightarrow> decide r1 r2 r3 = ''Other'')"
proof (intro conjI)
  show "determine_gpx_activity A F T doc = Inr (decide r1 r2 r3)"
    using assms by (simp add: determine_gpx_activity_Inr)
  show "\<forall>v. v \<noteq> NoSignal \<and> 2 \<le> count_list [r1, r2, r3] v \<longrightarrow>
         decide r1 r2 r3 = normalize_activity lower (Some v)"
    by (auto simp: decide_cases split: if_splits)
  show "(\<forall>v. v \<noteq> NoSignal \<longrightarrow> count_list [r1, r2, r3] v < 2) \<longrightarrow>
         decide r1 r2 r3 =
           (case filter (\<lambda>r. r \<noteq> NoSignal) [r1, r2, r3] of
              [] \<Rightarrow> ''Other''
            | r # _ \<Rightarrow> normalize_activity lower (Some r))"
  proof
    assume h: "\<forall>v. v \<noteq> NoSignal \<longrightarrow> count_list [r1, r2, r3] v < 2"
    have a: "r1 \<noteq> NoSignal \<Longrightarrow> r1 \<noteq> r2 \<and> r1 \<noteq> r3"
      using h [rule_format, of r1] by (auto split: if_splits)
    have b: "r2 \<noteq> NoSignal \<Longrightarrow> r2 \<noteq> r3"
      using h [rule_format, of r2] by (auto split: if_splits)
    show "decide r1 r2 r3 =
           (case filter (\<lambda>r. r \<noteq> NoSignal) [r1, r2, r3] of
              [] \<Rightarrow> ''Other''
            | r # _ \<Rightarrow> normalize_activity lower (Some r))"
      using a b by (auto simp: decide_cases)
  qed
  show "r1 = NoSignal \<and> r2 = NoSignal \<and> r3 = NoSignal \<longrightarrow> decide r1 r2 r3 = ''Other''"
    by (simp add: decide_cases)
qed

theorem classify_vote_witness:
  "test_data ieee_sample float_sample iso_sample doc_hike = Inr NoSignal \<and>
   test_metadata doc_hike = Tag ''hike'' \<and> test_keywords doc_hike = Tag ''hike'' \<and>
   determine_gpx_activity ieee_sample float_sample iso_sample doc_hike = Inr ''Hike'' \<and>
   test_data ieee_sample float_sample iso_sample doc_disagree = Inr (Tag ''swim'') \<and>
   test_metadata doc_disagree = Tag ''ride'' \<and> test_keywords doc_disagree = Tag ''run'' \<and>
   determine_gpx_activity ieee_sample float_sample iso_sample doc_disagree = Inr ''Ride''"
proof -
  have "\<not> has_depth doc_hike" by code_simp
  moreover have "extract_points float_sample iso_sample doc_hike = []" by code_simp
  ultimately have td: "test_data ieee_sample float_sample iso_sample doc_hike = Inr NoSignal"
    by (simp add: test_data_def)
  have md: "test_metadata doc_hike = Tag ''hike''" by code_simp
  have kw: "test_keywords doc_hike = Tag ''hike''" by code_simp
  have n: "normalize_activity lower (Some (Tag ''hike'')) = ''Hike''" by code_simp
  note v = classify_vote [OF td md [symmetric] kw [symmetric]]
  from v have d: "determine_gpx_activity ieee_sample float_sample iso_sample doc_hike
          = Inr (decide (Tag ''hike'') (Tag ''hike'') NoSignal)"
    by (rule conjunct1)
  from v have "\<forall>v. v \<noteq> NoSignal \<and> 2 \<le> count_list [Tag ''hike'', Tag ''hike'', NoSignal] v \<longrightarrow>
         decide (Tag ''hike'') (Tag ''hike'') NoSignal = normalize_activity lower (Some v)"
    by blast
  from this [rule_format, of "Tag ''hike''"]
  have "decide (Tag ''hike'') (Tag ''hike'') NoSignal = ''Hike''"
    unfolding n by simp
  with d td md kw have majority:
    "test_data ieee_sample float_sample iso_sample doc_hike = Inr NoSignal \<and>
     test_metadata doc_hike = Tag ''hike'' \<and> test_keywords doc_hike = Tag ''hike'' \<and>
     determine_gpx_activity ieee_sample float_sample iso_sample doc_hike = Inr ''Hike''"
    by simp
  have "has_depth doc_disagree" by code_simp
  then have td': "test_data ieee_sample float_sample iso_sample doc_disagree = Inr (Tag ''swim'')"
    by (simp add: test_data_def)
  have md': "test_metadata doc_disagree = Tag ''ride''" by code_simp
  have kw': "test_keywords doc_disagree = Tag ''run''" by code_simp
  have n': "normalize_activity lower (Some (Tag ''ride'')) = ''Ride''" by code_simp
  note v' = classify_vote [OF td' md' [symmetric] kw' [symmetric]]
  from v' have d': "determine_gpx_activity ieee_sample float_sample iso_sample doc_disagree
          = Inr (decide (Tag ''ride'') (Tag ''run'') (Tag ''swim''))"
    by (rule conjunct1)
  have none: "\<forall>v. v \<noteq> NoSignal \<longrightarrow> count_list [Tag ''ride'', Tag ''run'', Tag ''swim''] v < 2"
    by auto
  from v' have "(\<forall>v. v \<noteq> NoSignal \<longrightarrow> count_list [Tag ''ride'', Tag ''run'', Tag ''swim''] v < 2) \<longrightarrow>
      decide (Tag ''ride'') (Tag ''run'') (Tag ''swim'') =
        (case filter (\<lambda>r. r \<noteq> NoSignal) [Tag ''ride'', Tag ''run'', Tag ''swim''] of
           [] \<Rightarrow> ''Other''
         | r # _ \<Rightarrow> normalize_activity lower (Some r))"
    by blast
  with none have "decide (Tag ''ride'') (Tag ''run'') (Tag ''swim'') =
        (case filter (\<lambda>r. r \<noteq> NoSignal) [Tag ''ride'', Tag ''run'', Tag ''swim''] of
           [] \<Rightarrow> ''Other''
         | r # _ \<Rightarrow> normalize_activity lower (Some r))"
    by blast
  then have "decide (Tag ''ride'') (Tag ''run'') (Tag ''swim'') = ''Ride''"
    unfolding n' [symmetric] by simp
  with d' td' md' kw' have fallback:
    "test_data ieee_sample float_sample iso_sample doc_disagree = Inr (Tag ''swim'') \<and>
     test_metadata doc_disagree = Tag ''ride'' \<and> test_keywords doc_disagree = Tag ''run'' \<and>
     determine_gpx_activity ieee_sample float_sample iso_sample doc_disagree = Inr ''Ride''"
    by simp
  from majority fallback show ?thesis by simp
qed

text \<open>
  Claim C1 as stated fails: there are documents for which the combiner returns no label.
  On the track whose first time is naive and whose last time is aware the kinematic
  detector raises \<open>TypeError\<close>, on the track between two antipodes it raises \<open>ValueError\<close>,
  and the combiner catches neither.
\<close>

theorem classify_raises:
  "determine_gpx_activity ieee_sample float_sample iso_sample doc_mixed = Inl TypeError \<and>
   determine_gpx_activity ieee_sample float_sample iso_sample doc_antipodal = Inl ValueError"
  by (simp add: determine_gpx_activity_Inl test_data_mixed_stamps test_data_antipodal)

section \<open>The speed bands\<close>

text \<open>
  Claim C2, as the code has it. Take a document in which no node has a lowercased tag
  (namespace URI included) that contains depth, with at least ten parsed points, a
  positive time from the first to the last point, and a distance returned by
  \<open>haversine\<close> for every pair of consecutive points. With the total distance the sum of
  these distances, added from 0 in the order of the track, and the average speed
  (total distance / 1000) / (total time / 3600), the kinematic detector returns ride
  above 12, run above 7 up to 12, walk above 4 up to 7, hike up to 4 with more than
  5000 m, otherwise workout under 1800 s and under 2000 m, otherwise "no signal". The
  arithmetic is that of the float library, whatever it rounds to.
\<close>

theorem kinematic_bands:
  assumes "\<not> has_depth doc"
    and "pts = extract_points F T doc"
    and "10 \<le> length pts"
    and "total_seconds_between A (snd (snd (last pts))) (snd (snd (hd pts))) = Inr total_time"
    and "0 < total_time"
    and "list_all2 (\<lambda>(p, q) d. haversine A (fst p) (fst (snd p)) (fst q) (fst (snd q)) = Inr d)
           (zip pts (tl pts)) ds"
    and "total_dist = foldl (fadd A) 0 ds"
    and "avg = fdiv A (fdiv A total_dist 1000) (fdiv A total_time 3600)"
  shows "\<exists>r. test_data A F T doc = Inr r \<and>
     (12 < avg \<longrightarrow> r = Tag ''ride'') \<and>
     (7 < avg \<and> avg \<le> 12 \<longrightarrow> r = Tag ''run'') \<and>
     (4 < avg \<and> avg \<le> 7 \<longrightarrow> r = Tag ''walk'') \<and>
     (avg \<le> 4 \<and> 5000 < total_dist \<longrightarrow> r = Tag ''hike'') \<and>
     (avg \<le> 4 \<and> total_dist \<le> 5000 \<and> total_time < 1800 \<and> total_dist < 2000 \<longrightarrow>
        r = Tag ''workout'') \<and>
     (avg \<le> 4 \<and> total_dist \<le> 5000 \<and> \<not> (total_time < 1800 \<and> total_dist < 2000) \<longrightarrow>
        r = NoSignal)"
proof -
  have sl: "sum_legs A 0 pts = Inr total_dist"
    using sum_legs_legs [OF assms(6), of 0] assms(7) by simp
  have td: "test_data A F T doc = Inr (heuristic A total_dist total_time)"
    using assms(1-5) sl by (simp add: test_data_def Let_def)
  show ?thesis
    apply (rule exI [of _ "heuristic A total_dist total_time"])
    using td assms(8) by (simp add: heuristic_def Let_def)
qed

theorem kinematic_bands_witness:
  "\<not> has_depth doc_still \<and>
   length (extract_points float_sample iso_sample doc_still) = 10 \<and>
   total_seconds_between ieee_sample
     (snd (snd (last (extract_points float_sample iso_sample doc_still))))
     (snd (snd (hd (extract_points float_sample iso_sample doc_still)))) = Inr 60 \<and>
   test_data ieee_sample float_sample iso_sample doc_still = Inr (Tag ''workout'') \<and>
   \<not> has_depth doc_moving \<and>
   length (extract_points float_sample iso_sample doc_moving) = 10 \<and>
   total_seconds_between ieee_sample
     (snd (snd (last (extract_points float_sample iso_sample doc_moving))))
     (snd (snd (hd (extract_points float_sample iso_sample doc_moving)))) = Inr 360000 \<and>
   test_data ieee_sample float_sample iso_sample doc_moving = Inr (Tag ''run'')"
proof -
  define pts where "pts = extract_points float_sample iso_sample doc_still"
  have nd: "\<not> has_depth doc_still" by code_simp
  have ep: "extract_points float_sample iso_sample doc_still =
      replicate 9 (0, 0, Aware 1704067200000000) @ [(0, 0, Aware 1704067260000000)]"
    by code_simp
  have pts: "pts = replicate 9 (0, 0, Aware 1704067200000000) @ [(0, 0, Aware 1704067260000000)]"
    by (simp add: pts_def ep)
  have len: "10 \<le> length pts" by (simp add: pts)
  have ts: "total_seconds_between ieee_sample (snd (snd (last pts))) (snd (snd (hd pts))) = Inr 60"
    by (simp add: pts ieee_sel)
  have legs: "list_all2
      (\<lambda>(p, q) d. haversine ieee_sample (fst p) (fst (snd p)) (fst q) (fst (snd q)) = Inr d)
      (zip pts (tl pts)) (replicate 9 0)"
    by (simp add: pts numeral_eq_Suc haversine_same_place)
  have tot: "(0::real) = foldl (fadd ieee_sample) 0 (replicate 9 0)"
    by (simp add: numeral_eq_Suc ieee_defs)
  have avg: "(0::real) = fdiv ieee_sample (fdiv ieee_sample 0 1000) (fdiv ieee_sample 60 3600)"
    by (simp add: ieee_defs)
  from kinematic_bands [OF nd pts_def len ts _ legs tot avg]
  obtain r where r: "test_data ieee_sample float_sample iso_sample doc_still = Inr r"
    and w: "(0::real) \<le> 4 \<and> (0::real) \<le> 5000 \<and> (60::real) < 1800 \<and> (0::real) < 2000 \<longrightarrow>
        r = Tag ''workout''"
    by auto
  from w have "r = Tag ''workout''" by simp
  moreover have "length pts = 10" by (simp add: pts)
  ultimately have still:
    "\<not> has_depth doc_still \<and>
     length (extract_points float_sample iso_sample doc_still) = 10 \<and>
     total_seconds_between ieee_sample
       (snd (snd (last (extract_points float_sample iso_sample doc_still))))
       (snd (snd (hd (extract_points float_sample iso_sample doc_still)))) = Inr 60 \<and>
     test_data ieee_sample float_sample iso_sample doc_still = Inr (Tag ''workout'')"
    using r nd ts by (simp add: pts_def)
  define qts where "qts = extract_points float_sample iso_sample doc_moving"
  have nd': "\<not> has_depth doc_moving" by code_simp
  have ep': "extract_points float_sample iso_sample doc_moving =
      concat (replicate 4 [(0, 0, Aware 1704067200000000), (0, 1, Aware 1704067200000000)])
      @ [(0, 0, Aware 1704067200000000), (0, 1, Aware 1704427200000000)]"
    by code_simp
  have qts: "qts =
      concat (replicate 4 [(0, 0, Aware 1704067200000000), (0, 1, Aware 1704067200000000)])
      @ [(0, 0, Aware 1704067200000000), (0, 1, Aware 1704427200000000)]"
    by (simp add: qts_def ep')
  have len': "10 \<le> length qts" by (simp add: qts numeral_eq_Suc)
  have ts': "total_seconds_between ieee_sample (snd (snd (last qts))) (snd (snd (hd qts)))
      = Inr 360000"
    by (simp add: qts numeral_eq_Suc ieee_sel)
  have legs': "list_all2
      (\<lambda>(p, q) d. haversine ieee_sample (fst p) (fst (snd p)) (fst q) (fst (snd q)) = Inr d)
      (zip qts (tl qts)) (replicate 9 (7641257174711981 / 68719476736))"
    by (simp add: qts numeral_eq_Suc haversine_one_degree)
  have tot': "(2149103580387745 / 2147483648 :: real)
      = foldl (fadd ieee_sample) 0 (replicate 9 (7641257174711981 / 68719476736))"
    by (simp add: numeral_eq_Suc ieee_defs)
  have avg': "(5633746089771651 / 562949953421312 :: real)
      = fdiv ieee_sample (fdiv ieee_sample (2149103580387745 / 2147483648) 1000)
          (fdiv ieee_sample 360000 3600)"
    by (simp add: ieee_defs)
  from kinematic_bands [OF nd' qts_def len' ts' _ legs' tot' avg']
  obtain r' where r': "test_data ieee_sample float_sample iso_sample doc_moving = Inr r'"
    and w': "7 < (5633746089771651 / 562949953421312 :: real) \<and>
        (5633746089771651 / 562949953421312 :: real) \<le> 12 \<longrightarrow> r' = Tag ''run''"
    by auto
  from w' have "r' = Tag ''run''" by simp
  moreover have "length qts = 10" by (simp add: qts numeral_eq_Suc)
  ultimately have moving:
    "\<not> has_depth doc_moving \<and>
     length (extract_points float_sample iso_sample doc_moving) = 10 \<and>
     total_seconds_between ieee_sample
       (snd (snd (last (extract_points float_sample iso_sample doc_moving))))
       (snd (snd (hd (extract_points float_sample iso_sample doc_moving)))) = Inr 360000 \<and>
     test_data ieee_sample float_sample iso_sample doc_moving = Inr (Tag ''run'')"
    using r' nd' ts' by (simp add: qts_def)
  from still moving show ?thesis by simp
qed

text \<open>
  Claim C2 as stated fails. The still track under a root whose namespace URI holds the
  word depth has no node with depth in its local name, ten points and a positive
  time, yet the detector returns swim, which is none of the bands. On the track between
  two antipodes, which has ten valid points and a positive time, \<open>haversine\<close> raises and
  the detector returns nothing.
\<close>

theorem bands_not_for_all_tracks:
  "\<not> list_ex (\<lambda>e. sublist ''depth'' (lower (local_name (tag e)))) (iter doc_ns_still) \<and>
   length (extract_points float_sample iso_sample doc_ns_still) = 10 \<and>
   total_seconds_between ieee_sample
     (snd (snd (last (extract_points float_sample iso_sample doc_ns_still))))
     (snd (snd (hd (extract_points float_sample iso_sample doc_ns_still)))) = Inr 60 \<and>
   test_data ieee_sample float_sample iso_sample doc_ns_still = Inr (Tag ''swim'') \<and>
   \<not> has_depth doc_antipodal \<and>
   length (extract_points float_sample iso_sample doc_antipodal) = 10 \<and>
   total_seconds_between ieee_sample
     (snd (snd (last (extract_points float_sample iso_sample doc_antipodal))))
     (snd (snd (hd (extract_points float_sample iso_sample doc_antipodal)))) = Inr 60 \<and>
   test_data ieee_sample float_sample iso_sample doc_antipodal = Inl ValueError"
proof -
  have 1: "\<not> list_ex (\<lambda>e. sublist ''depth'' (lower (local_name (tag e)))) (iter doc_ns_still)"
    by code_simp
  have ep: "extract_points float_sample iso_sample doc_ns_still =
      replicate 9 (0, 0, Aware 1704067200000000) @ [(0, 0, Aware 1704067260000000)]"
    by code_simp
  have hd: "has_depth doc_ns_still" by code_simp
  have 2: "test_data ieee_sample float_sample iso_sample doc_ns_still = Inr (Tag ''swim'')"
    using hd by (simp add: test_data_def)
  have 3: "\<not> has_depth doc_antipodal" by code_simp
  have ep': "extract_points float_sample iso_sample doc_antipodal =
      concat (replicate 4 [(8, 0, Aware 1704067200000000), (- 8, 180, Aware 1704067200000000)])
      @ [(8, 0, Aware 1704067200000000), (- 8, 180, Aware 1704067260000000)]"
    by code_simp
  show ?thesis
    using 1 2 3 test_data_antipodal
    by (simp add: ep ep' ieee_sel numeral_eq_Suc)
qed

section \<open>Documents with a depth node\<close>

text \<open>The metadata and keyword detectors return "no signal" or one of the six tags.\<close>

lemma first_activity_key:
  "first_activity ACTIVITY_MAP txt = Some a \<Longrightarrow>
   a \<in> {''ride'', ''run'', ''swim'', ''walk'', ''hike'', ''workout''}"
  by (simp add: ACTIVITY_MAP_def split: if_splits)

lemma scan_candidates_known:
  "scan_candidates cs \<in> {NoSignal, Tag ''ride'', Tag ''run'', Tag ''swim'', Tag ''walk'',
     Tag ''hike'', Tag ''workout''}"
proof (induction cs)
  case Nil
  show ?case by simp
next
  case (Cons c cs)
  show ?case
  proof (cases "first_activity ACTIVITY_MAP c")
    case None
    with Cons show ?thesis by simp
  next
    case (Some a)
    from first_activity_key [OF Some] Some show ?thesis by auto
  qed
qed

lemma test_metadata_known:
  "test_metadata doc \<in> {NoSignal, Tag ''ride'', Tag ''run'', Tag ''swim'', Tag ''walk'',
     Tag ''hike'', Tag ''workout''}"
  unfolding test_metadata_def by (rule scan_candidates_known)

lemma test_keywords_known:
  "test_keywords doc \<in> {NoSignal, Tag ''ride'', Tag ''run'', Tag ''swim'', Tag ''walk'',
     Tag ''hike'', Tag ''workout''}"
proof (cases "first_activity ACTIVITY_MAP (join '' '' (texts doc))")
  case None
  then show ?thesis by (simp add: test_keywords_def)
next
  case (Some a)
  from first_activity_key [OF Some] Some show ?thesis by (auto simp: test_keywords_def)
qed

lemma normalize_known:
  "normalize_activity lower (Some (Tag ''ride'')) = ''Ride''"
  "normalize_activity lower (Some (Tag ''run'')) = ''Run''"
  "normalize_activity lower (Some (Tag ''swim'')) = ''Swim''"
  "normalize_activity lower (Some (Tag ''walk'')) = ''Walk''"
  "normalize_activity lower (Some (Tag ''hike'')) = ''Hike''"
  "normalize_activity lower (Some (Tag ''workout'')) = ''Workout''"
  "normalize_activity lower (Some NoSignal) = ''Other''"
  by (simp_all add: NORMALIZED_OUTPUT_def lower_def lower_char_def)

lemma normalize_swim_iff:
  "r \<in> {NoSignal, Tag ''ride'', Tag ''run'', Tag ''swim'', Tag ''walk'', Tag ''hike'',
     Tag ''workout''} \<Longrightarrow>
   normalize_activity lower (Some r) = ''Swim'' \<longleftrightarrow> r = Tag ''swim''"
  by (auto simp: normalize_known simp del: normalize_activity.simps(1))

lemma test_data_depth: "has_depth doc \<Longrightarrow> test_data A F T doc = Inr (Tag ''swim'')"
  by (simp add: test_data_def)

text \<open>
  Claim C3, as the code has it. For a document with a node whose lowercased tag contains
  depth, the kinematic detector returns swim whatever the track holds. The combiner
  still votes: the label is Swim exactly when the metadata or the keyword detector says
  swim too, or when both give "no signal".
\<close>

theorem depth_swim_vote:
  assumes "has_depth doc"
  shows "test_data A F T doc = Inr (Tag ''swim'') \<and>
    (determine_gpx_activity A F T doc = Inr ''Swim'' \<longleftrightarrow>
       test_metadata doc = Tag ''swim'' \<or> test_keywords doc = Tag ''swim'' \<or>
       test_metadata doc = NoSignal \<and> test_keywords doc = NoSignal)"
proof -
  have td: "test_data A F T doc = Inr (Tag ''swim'')"
    using assms by (rule test_data_depth)
  have d: "determine_gpx_activity A F T doc
             = Inr (decide (test_metadata doc) (test_keywords doc) (Tag ''swim''))"
    using td by (rule determine_gpx_activity_Inr)
  have "decide r1 r2 (Tag ''swim'') = ''Swim'' \<longleftrightarrow>
          r1 = Tag ''swim'' \<or> r2 = Tag ''swim'' \<or> r1 = NoSignal \<and> r2 = NoSignal"
    if "r1 \<in> {NoSignal, Tag ''ride'', Tag ''run'', Tag ''swim'', Tag ''walk'', Tag ''hike'',
           Tag ''workout''}"
      and "r2 \<in> {NoSignal, Tag ''ride'', Tag ''run'', Tag ''swim'', Tag ''walk'', Tag ''hike'',
           Tag ''workout''}" for r1 r2
    using normalize_swim_iff [OF that(1)] normalize_swim_iff [OF that(2)]
    by (auto simp: decide_cases normalize_known simp del: normalize_activity.simps(1))
  from this [OF test_metadata_known test_keywords_known] td d show ?thesis by simp
qed

theorem depth_swim_vote_witness:
  "has_depth doc_depth_only \<and>
   determine_gpx_activity ieee_sample float_sample iso_sample doc_depth_only = Inr ''Swim''"
proof -
  have h: "has_depth doc_depth_only" by code_simp
  have m: "test_metadata doc_depth_only = NoSignal" by code_simp
  have k: "test_keywords doc_depth_only = NoSignal" by code_simp
  from depth_swim_vote [OF h, of ieee_sample float_sample iso_sample] m k h show ?thesis by simp
qed

text \<open>
  Claim C3 as stated fails: a document with a depth node whose type field says running
  is labelled Run, the verdict of the metadata detector, since no value has two votes.
\<close>

theorem depth_not_always_swim:
  "has_depth doc_depth_run \<and>
   determine_gpx_activity ieee_sample float_sample iso_sample doc_depth_run = Inr ''Run''"
proof -
  have h: "has_depth doc_depth_run" by code_simp
  have m: "test_metadata doc_depth_run = Tag ''run''" by code_simp
  have k: "test_keywords doc_depth_run = NoSignal" by code_simp
  have "determine_gpx_activity ieee_sample float_sample iso_sample doc_depth_run
          = Inr (decide (Tag ''run'') NoSignal (Tag ''swim''))"
    using determine_gpx_activity_Inr [OF test_data_depth [OF h]] m k by simp
  then show ?thesis using h
    by (simp add: decide_cases normalize_known del: normalize_activity.simps(1))
qed


section \<open>Too little data\<close>

lemma decide_no_third:
  "decide r1 r2 NoSignal =
     (case filter (\<lambda>r. r \<noteq> NoSignal) [r1, r2] of
        [] \<Rightarrow> ''Other''
      | r # _ \<Rightarrow> normalize_activity lower (Some r))"
  by (simp add: decide_cases)

text \<open>
  Claim C4, as the code has it. For a document without a depth node: fewer than ten
  parsed points make the kinematic detector return "no signal", and so does a time from
  the first to the last point that is not positive, when the distance loop before that
  test has returned; the combiner then gives the label of the metadata verdict, else of
  the keyword verdict, else Other, so fewer than ten points with no metadata and no
  keyword verdict give Other.
\<close>

theorem too_little_data:
  assumes "\<not> has_depth doc"
    and "pts = extract_points F T doc"
  shows "(length pts < 10 \<longrightarrow> test_data A F T doc = Inr NoSignal) \<and>
    (\<forall>t d. 10 \<le> length pts \<and>
         total_seconds_between A (snd (snd (last pts))) (snd (snd (hd pts))) = Inr t \<and>
         sum_legs A 0 pts = Inr d \<and> t \<le> 0
         \<longrightarrow> test_data A F T doc = Inr NoSignal) \<and>
    (test_data A F T doc = Inr NoSignal \<longrightarrow>
       determine_gpx_activity A F T doc =
         Inr (case filter (\<lambda>r. r \<noteq> NoSignal) [test_metadata doc, test_keywords doc] of
                [] \<Rightarrow> ''Other''
              | r # _ \<Rightarrow> normalize_activity lower (Some r))) \<and>
    (length pts < 10 \<and> test_metadata doc = NoSignal \<and> test_keywords doc = NoSignal \<longrightarrow>
       determine_gpx_activity A F T doc = Inr ''Other'')"
proof (intro conjI allI impI)
  assume "length pts < 10"
  then show "test_data A F T doc = Inr NoSignal"
    using assms by (simp add: test_data_def)
next
  fix t d
  assume h: "10 \<le> length pts \<and>
         total_seconds_between A (snd (snd (last pts))) (snd (snd (hd pts))) = Inr t \<and>
         sum_legs A 0 pts = Inr d \<and> t \<le> 0"
  then show "test_data A F T doc = Inr NoSignal"
    using assms by (simp add: test_data_def Let_def)
next
  assume "test_data A F T doc = Inr NoSignal"
  from determine_gpx_activity_Inr [OF this]
  show "determine_gpx_activity A F T doc =
         Inr (case filter (\<lambda>r. r \<noteq> NoSignal) [test_metadata doc, test_keywords doc] of
                [] \<Rightarrow> ''Other''
              | r # _ \<Rightarrow> normalize_activity lower (Some r))"
    by (simp only: decide_no_third)
next
  assume h: "length pts < 10 \<and> test_metadata doc = NoSignal \<and> test_keywords doc = NoSignal"
  then have "test_data A F T doc = Inr NoSignal"
    using assms by (simp add: test_data_def)
  from determine_gpx_activity_Inr [OF this] h
  show "determine_gpx_activity A F T doc = Inr ''Other''"
    by (simp add: decide_cases)
qed

theorem too_little_data_witness:
  "\<not> has_depth doc_one_point \<and>
   length (extract_points float_sample iso_sample doc_one_point) = 1 \<and>
   test_metadata doc_one_point = NoSignal \<and> test_keywords doc_one_point = NoSignal \<and>
   test_data ieee_sample float_sample iso_sample doc_one_point = Inr NoSignal \<and>
   determine_gpx_activity ieee_sample float_sample iso_sample doc_one_point = Inr ''Other'' \<and>
   \<not> has_depth doc_frozen \<and>
   length (extract_points float_sample iso_sample doc_frozen) = 10 \<and>
   total_seconds_between ieee_sample
     (snd (snd (last (extract_points float_sample iso_sample doc_frozen))))
     (snd (snd (hd (extract_points float_sample iso_sample doc_frozen)))) = Inr 0 \<and>
   sum_legs ieee_sample 0 (extract_points float_sample iso_sample doc_frozen) = Inr 0 \<and>
   test_data ieee_sample float_sample iso_sample doc_frozen = Inr NoSignal \<and>
   determine_gpx_activity ieee_sample float_sample iso_sample doc_frozen = Inr ''Other''"
proof -
  have nd: "\<not> has_depth doc_one_point" by code_simp
  have len: "length (extract_points float_sample iso_sample doc_one_point) = 1" by code_simp
  have m: "test_metadata doc_one_point = NoSignal" by code_simp
  have k: "test_keywords doc_one_point = NoSignal" by code_simp
  note w = too_little_data [where A = ieee_sample and F = float_sample and T = iso_sample, OF nd refl]
  from w len have td: "test_data ieee_sample float_sample iso_sample doc_one_point = Inr NoSignal"
    by simp
  from w len m k
  have "determine_gpx_activity ieee_sample float_sample iso_sample doc_one_point = Inr ''Other''"
    by simp
  with nd len m k td have one:
    "\<not> has_depth doc_one_point \<and>
     length (extract_points float_sample iso_sample doc_one_point) = 1 \<and>
     test_metadata doc_one_point = NoSignal \<and> test_keywords doc_one_point = NoSignal \<and>
     test_data ieee_sample float_sample iso_sample doc_one_point = Inr NoSignal \<and>
     determine_gpx_activity ieee_sample float_sample iso_sample doc_one_point = Inr ''Other''"
    by simp
  have nd': "\<not> has_depth doc_frozen" by code_simp
  have ep: "extract_points float_sample iso_sample doc_frozen =
      replicate 10 (0, 0, Aware 1704067200000000)"
    by code_simp
  have m': "test_metadata doc_frozen = NoSignal" by code_simp
  have k': "test_keywords doc_frozen = NoSignal" by code_simp
  have len': "length (extract_points float_sample iso_sample doc_frozen) = 10"
    by (simp add: ep)
  have ts: "total_seconds_between ieee_sample
     (snd (snd (last (extract_points float_sample iso_sample doc_frozen))))
     (snd (snd (hd (extract_points float_sample iso_sample doc_frozen)))) = Inr 0"
    by (simp add: ep ieee_sel)
  have sl: "sum_legs ieee_sample 0 (extract_points float_sample iso_sample doc_frozen) = Inr 0"
    by (simp add: ep numeral_eq_Suc haversine_same_place ieee_defs)
  note w' = too_little_data [where A = ieee_sample and F = float_sample and T = iso_sample, OF nd' refl]
  from w' have "\<forall>t d. 10 \<le> length (extract_points float_sample iso_sample doc_frozen) \<and>
         total_seconds_between ieee_sample
           (snd (snd (last (extract_points float_sample iso_sample doc_frozen))))
           (snd (snd (hd (extract_points float_sample iso_sample doc_frozen)))) = Inr t \<and>
         sum_legs ieee_sample 0 (extract_points float_sample iso_sample doc_frozen) = Inr d \<and>
         t \<le> 0
         \<longrightarrow> test_data ieee_sample float_sample iso_sample doc_frozen = Inr NoSignal"
    by blast
  from this [rule_format, of 0 0] len' ts sl
  have td': "test_data ieee_sample float_sample iso_sample doc_frozen = Inr NoSignal"
    by simp
  from w' td' m' k'
  have "determine_gpx_activity ieee_sample float_sample iso_sample doc_frozen = Inr ''Other''"
    by simp
  with nd' len' ts sl td' have frozen:
    "\<not> has_depth doc_frozen \<and>
     length (extract_points float_sample iso_sample doc_frozen) = 10 \<and>
     total_seconds_between ieee_sample
       (snd (snd (last (extract_points float_sample iso_sample doc_frozen))))
       (snd (snd (hd (extract_points float_sample iso_sample doc_frozen)))) = Inr 0 \<and>
     sum_legs ieee_sample 0 (extract_points float_sample iso_sample doc_frozen) = Inr 0 \<and>
     test_data ieee_sample float_sample iso_sample doc_frozen = Inr NoSignal \<and>
     determine_gpx_activity ieee_sample float_sample iso_sample doc_frozen = Inr ''Other''"
    by simp
  from one frozen show ?thesis by simp
qed

text \<open>
  Claim C4 as stated fails: a document that has a depth node, no track point and no
  metadata or keyword verdict is labelled Swim, since the depth test comes before the
  count of the points.
\<close>

theorem few_points_with_depth:
  "length (extract_points float_sample iso_sample doc_depth_only) < 10 \<and>
   test_metadata doc_depth_only = NoSignal \<and> test_keywords doc_depth_only = NoSignal \<and>
   determine_gpx_activity ieee_sample float_sample iso_sample doc_depth_only = Inr ''Swim''"
proof -
  have h: "has_depth doc_depth_only" by code_simp
  have len: "length (extract_points float_sample iso_sample doc_depth_only) = 0" by code_simp
  have m: "test_metadata doc_depth_only = NoSignal" by code_simp
  have k: "test_keywords doc_depth_only = NoSignal" by code_simp
  have "determine_gpx_activity ieee_sample float_sample iso_sample doc_depth_only
          = Inr (decide NoSignal NoSignal (Tag ''swim''))"
    using determine_gpx_activity_Inr [OF test_data_depth [OF h]] m k by simp
  then show ?thesis using len m k
    by (simp add: decide_cases normalize_known del: normalize_activity.simps(1))
qed


section \<open>The track parser\<close>

lemma point_of_Some_iff:
  "point_of F T e = Some (la, lo, t) \<longleftrightarrow>
     (\<exists>slat slon tel s.
        map_of (attrib e) ''lat'' = Some slat \<and> slat \<noteq> [] \<and>
        map_of (attrib e) ''lon'' = Some slon \<and> slon \<noteq> [] \<and>
        find_child ''time'' e = Some tel \<and> elem_text tel = Some s \<and>
        T (replace ''Z'' ''+00:00'' s) = Some t \<and>
        F slat = Some la \<and> F slon = Some lo)"
  by (auto simp: point_of_def split: option.splits)

lemma replace_no_match:
  "c \<notin> set s \<Longrightarrow> replace [c] new s = s"
  by (induction s) auto

lemma replace_final:
  "c \<notin> set s \<Longrightarrow> replace [c] new (s @ [c]) = s @ new"
  by (induction s) auto

lemma set_extract_points:
  "set (extract_points F T doc) =
     {p. \<exists>e \<in> set (findall ''trkpt'' doc). point_of F T e = Some p}"
  by (force simp: extract_points_def List.map_filter_def image_iff)

lemma find_split:
  "List.find P xs = Some x \<longleftrightarrow> (\<exists>pre post. xs = pre @ x # post \<and> P x \<and> \<not> list_ex P pre)"
proof (induction xs)
  case Nil
  show ?case by simp
next
  case (Cons a xs)
  show ?case
  proof (cases "P a")
    case True
    have "(\<exists>pre post. a # xs = pre @ x # post \<and> P x \<and> \<not> list_ex P pre) \<longleftrightarrow> a = x"
    proof
      assume "\<exists>pre post. a # xs = pre @ x # post \<and> P x \<and> \<not> list_ex P pre"
      then obtain pre post where e: "a # xs = pre @ x # post" and n: "\<not> list_ex P pre" by blast
      show "a = x"
      proof (cases pre)
        case Nil
        with e show ?thesis by simp
      next
        case (Cons b pre')
        with e True n show ?thesis by simp
      qed
    next
      assume "a = x"
      then have "a # xs = [] @ x # xs \<and> P x \<and> \<not> list_ex P []" using True by simp
      then show "\<exists>pre post. a # xs = pre @ x # post \<and> P x \<and> \<not> list_ex P pre" by blast
    qed
    with True show ?thesis by simp
  next
    case False
    have "(\<exists>pre post. a # xs = pre @ x # post \<and> P x \<and> \<not> list_ex P pre) \<longleftrightarrow>
          (\<exists>pre post. xs = pre @ x # post \<and> P x \<and> \<not> list_ex P pre)"
    proof
      assume "\<exists>pre post. a # xs = pre @ x # post \<and> P x \<and> \<not> list_ex P pre"
      then obtain pre post where e: "a # xs = pre @ x # post" and p: "P x"
        and n: "\<not> list_ex P pre" by blast
      show "\<exists>pre post. xs = pre @ x # post \<and> P x \<and> \<not> list_ex P pre"
      proof (cases pre)
        case Nil
        with e p False show ?thesis by simp
      next
        case (Cons b pre')
        with e n have "xs = pre' @ x # post \<and> \<not> list_ex P pre'" by simp
        with p show ?thesis by blast
      qed
    next
      assume "\<exists>pre post. xs = pre @ x # post \<and> P x \<and> \<not> list_ex P pre"
      then obtain pre post where e: "xs = pre @ x # post" and p: "P x"
        and n: "\<not> list_ex P pre" by blast
      then have "a # xs = (a # pre) @ x # post \<and> P x \<and> \<not> list_ex P (a # pre)"
        using False by simp
      then show "\<exists>pre post. a # xs = pre @ x # post \<and> P x \<and> \<not> list_ex P pre" by blast
    qed
    with False Cons show ?thesis by simp
  qed
qed

lemma replace_each:
  "replace [c] new s = concat (map (\<lambda>d. if d = c then new else [d]) s)"
  by (induction s) auto

text \<open>
  Claim C5, as the code has it. A track-point node is a descendant of the root whose
  tag is trkpt in any namespace or in none. It gives a point exactly when it has a
  non-empty lat attribute and a non-empty lon attribute that both parse as numbers,
  and its first child with the tag time (in any namespace or in none) has a text that
  parses as a timestamp once every Z in it is replaced by +00:00; for a text that ends
  in Z and has no other Z this replaces the final Z alone. The parser returns the
  points of the nodes that give one, in document order, and skips the others without
  an error; a document without track-point nodes gives the empty sequence.
\<close>

theorem parser_skips_bad_points:
  "(point_of F T e = Some (la, lo, t) \<longleftrightarrow>
     (\<exists>slat slon pre tel post s.
        map_of (attrib e) ''lat'' = Some slat \<and> slat \<noteq> [] \<and>
        map_of (attrib e) ''lon'' = Some slon \<and> slon \<noteq> [] \<and>
        children e = pre @ tel # post \<and>
        (tag tel = ''time'' \<or> suffix ''}time'' (tag tel)) \<and>
        \<not> list_ex (\<lambda>c. tag c = ''time'' \<or> suffix ''}time'' (tag c)) pre \<and>
        elem_text tel = Some s \<and>
        T (concat (map (\<lambda>c. if c = CHR ''Z'' then ''+00:00'' else [c]) s)) = Some t \<and>
        F slat = Some la \<and> F slon = Some lo)) \<and>
   extract_points F T doc =
     map the (filter (\<lambda>p. p \<noteq> None) (map (point_of F T)
       (filter (\<lambda>e. tag e = ''trkpt'' \<or> suffix ''}trkpt'' (tag e))
          (concat (map iter (children doc)))))) \<and>
   replace ''Z'' ''+00:00'' s0 = concat (map (\<lambda>c. if c = CHR ''Z'' then ''+00:00'' else [c]) s0) \<and>
   (CHR ''Z'' \<notin> set s0 \<longrightarrow> replace ''Z'' ''+00:00'' (s0 @ ''Z'') = s0 @ ''+00:00'') \<and>
   extract_points F T (Elem tg ats tx []) = []"
proof (intro conjI impI)
  have "find_child ''time'' e = Some tel \<longleftrightarrow>
        (\<exists>pre post. children e = pre @ tel # post \<and>
           (tag tel = ''time'' \<or> suffix ''}time'' (tag tel)) \<and>
           \<not> list_ex (\<lambda>c. tag c = ''time'' \<or> suffix ''}time'' (tag c)) pre)" for tel
    unfolding find_child_def wild_match_def by (rule find_split)
  then show "point_of F T e = Some (la, lo, t) \<longleftrightarrow>
     (\<exists>slat slon pre tel post s.
        map_of (attrib e) ''lat'' = Some slat \<and> slat \<noteq> [] \<and>
        map_of (attrib e) ''lon'' = Some slon \<and> slon \<noteq> [] \<and>
        children e = pre @ tel # post \<and>
        (tag tel = ''time'' \<or> suffix ''}time'' (tag tel)) \<and>
        \<not> list_ex (\<lambda>c. tag c = ''time'' \<or> suffix ''}time'' (tag c)) pre \<and>
        elem_text tel = Some s \<and>
        T (concat (map (\<lambda>c. if c = CHR ''Z'' then ''+00:00'' else [c]) s)) = Some t \<and>
        F slat = Some la \<and> F slon = Some lo)"
    unfolding point_of_Some_iff replace_each by blast
  show "extract_points F T doc =
     map the (filter (\<lambda>p. p \<noteq> None) (map (point_of F T)
       (filter (\<lambda>e. tag e = ''trkpt'' \<or> suffix ''}trkpt'' (tag e))
          (concat (map iter (children doc))))))"
    by (simp add: extract_points_def findall_def wild_match_def List.map_filter_def
        filter_map comp_def)
  show "replace ''Z'' ''+00:00'' s0 = concat (map (\<lambda>c. if c = CHR ''Z'' then ''+00:00'' else [c]) s0)"
    by (rule replace_each)
  show "replace ''Z'' ''+00:00'' (s0 @ ''Z'') = s0 @ ''+00:00''" if "CHR ''Z'' \<notin> set s0"
    using that by (rule replace_final)
  show "extract_points F T (Elem tg ats tx []) = []"
    by (simp add: extract_points_def findall_def List.map_filter_simps)
qed

theorem parser_skips_bad_points_witness:
  "CHR ''Z'' \<notin> set ''2024-01-01T00:00:00'' \<and>
   replace ''Z'' ''+00:00'' ''2024-01-01T00:00:00Z'' = ''2024-01-01T00:00:00+00:00'' \<and>
   point_of float_sample iso_sample good_point = Some (0, 1, Aware 1704067200000000) \<and>
   point_of float_sample iso_sample no_time_point = None \<and>
   extract_points float_sample iso_sample doc_parse
     = [(0, 1, Aware 1704067200000000), (1, 0, Aware 1704067260000000)]"
proof -
  have nz: "CHR ''Z'' \<notin> set ''2024-01-01T00:00:00''" by simp
  note w = parser_skips_bad_points [of float_sample iso_sample good_point 0 1
      "Aware 1704067200000000" _ "''2024-01-01T00:00:00''"]
  from w nz have z: "replace ''Z'' ''+00:00'' (''2024-01-01T00:00:00'' @ ''Z'')
      = ''2024-01-01T00:00:00'' @ ''+00:00''"
    by blast
  have "\<exists>slat slon pre tel post s.
        map_of (attrib good_point) ''lat'' = Some slat \<and> slat \<noteq> [] \<and>
        map_of (attrib good_point) ''lon'' = Some slon \<and> slon \<noteq> [] \<and>
        children good_point = pre @ tel # post \<and>
        (tag tel = ''time'' \<or> suffix ''}time'' (tag tel)) \<and>
        \<not> list_ex (\<lambda>c. tag c = ''time'' \<or> suffix ''}time'' (tag c)) pre \<and>
        elem_text tel = Some s \<and>
        iso_sample (concat (map (\<lambda>c. if c = CHR ''Z'' then ''+00:00'' else [c]) s))
          = Some (Aware 1704067200000000) \<and>
        float_sample slat = Some 0 \<and> float_sample slon = Some 1"
    apply (rule exI [of _ "''0''"], rule exI [of _ "''1''"])
    apply (rule exI [of _ "[Elem (gpx_ns ''ele'') [] (Some ''12'') []]"])
    apply (rule exI [of _ "Elem (gpx_ns ''time'') [] (Some ''2024-01-01T00:00:00Z'') []"])
    apply (rule exI [of _ "[]"], rule exI [of _ "''2024-01-01T00:00:00Z''"])
    by (simp add: good_point_def gpx_ns_def suffix_to_prefix iso_sample_def float_sample_def)
  with w have p1: "point_of float_sample iso_sample good_point
      = Some (0, 1, Aware 1704067200000000)"
    by blast
  have p2: "point_of float_sample iso_sample no_time_point = None" by code_simp
  have p3: "extract_points float_sample iso_sample doc_parse
     = [(0, 1, Aware 1704067200000000), (1, 0, Aware 1704067260000000)]"
    by code_simp
  from nz z p1 p2 p3 show ?thesis by simp
qed

text \<open>
  Claim C5 as stated fails where it says that the Z suffix is what is replaced. The
  time text 2024-01-01Z00:00:00Z ends in Z; with its final Z replaced it is a text that
  the library parses, yet the parser, which replaces both, skips the point.
\<close>

theorem every_z_replaced:
  "replace ''Z'' ''+00:00'' ''2024-01-01Z00:00:00Z'' = ''2024-01-01+00:0000:00:00+00:00'' \<and>
   iso_sample (''2024-01-01Z00:00:00'' @ ''+00:00'') = Some (Aware 1704067200000000) \<and>
   iso_sample ''2024-01-01+00:0000:00:00+00:00'' = None \<and>
   extract_points float_sample iso_sample doc_two_z = []"
  by code_simp

text \<open>
  Claim C9, as the code has it. The coordinates of a parsed point are the numbers that
  the lat and lon attributes of its node parse to, whatever they are: the parser makes
  no range check.
\<close>

theorem coordinates_as_parsed:
  "(p \<in> set (extract_points F T doc) \<longrightarrow>
      (\<exists>e \<in> set (findall ''trkpt'' doc). \<exists>slat slon.
          map_of (attrib e) ''lat'' = Some slat \<and> map_of (attrib e) ''lon'' = Some slon \<and>
          F slat = Some (fst p) \<and> F slon = Some (fst (snd p)))) \<and>
   (slat \<noteq> [] \<and> slon \<noteq> [] \<and> F slat = Some x \<and> F slon = Some y \<and>
    T (replace ''Z'' ''+00:00'' s) = Some t \<longrightarrow>
      extract_points F T (gpx [trkpt slat slon s]) = [(x, y, t)])"
proof (intro conjI impI)
  assume "p \<in> set (extract_points F T doc)"
  then obtain e where e: "e \<in> set (findall ''trkpt'' doc)" "point_of F T e = Some p"
    by (auto simp: set_extract_points)
  obtain la lo t where p: "p = (la, lo, t)" by (cases p)
  from e(2) [unfolded p point_of_Some_iff] e(1) p
  show "\<exists>e \<in> set (findall ''trkpt'' doc). \<exists>slat slon.
          map_of (attrib e) ''lat'' = Some slat \<and> map_of (attrib e) ''lon'' = Some slon \<and>
          F slat = Some (fst p) \<and> F slon = Some (fst (snd p))"
    by auto
next
  assume h: "slat \<noteq> [] \<and> slon \<noteq> [] \<and> F slat = Some x \<and> F slon = Some y \<and>
    T (replace ''Z'' ''+00:00'' s) = Some t"
  have f: "findall ''trkpt'' (gpx [trkpt slat slon s]) = [trkpt slat slon s]"
    by (simp add: findall_def gpx_def trkpt_def wild_match_def suffix_to_prefix)
  have "point_of F T (trkpt slat slon s) = Some (x, y, t)"
    using h by (simp add: point_of_def trkpt_def find_child_def wild_match_def suffix_to_prefix)
  then show "extract_points F T (gpx [trkpt slat slon s]) = [(x, y, t)]"
    by (simp add: extract_points_def f List.map_filter_simps)
qed

theorem coordinates_as_parsed_witness:
  "extract_points float_sample iso_sample doc_one_point = [(0, 0, Aware 1704067200000000)]"
proof -
  have "float_sample ''0'' = Some 0" by (simp add: float_sample_def)
  moreover have "iso_sample (replace ''Z'' ''+00:00'' ''2024-01-01T00:00:00Z'')
      = Some (Aware 1704067200000000)" by code_simp
  ultimately show ?thesis
    using coordinates_as_parsed [of _ float_sample iso_sample _ "''0''" "''0''" 0 0
        "''2024-01-01T00:00:00Z''" "Aware 1704067200000000"]
    by (simp add: doc_one_point_def)
qed

text \<open>
  Claim C9 as stated fails: a node with lat 91 and lon 181 gives a point with these
  coordinates.
\<close>

theorem point_beyond_ranges:
  "(91, 181, Aware 1704067200000000) \<in> set (extract_points float_sample iso_sample doc_far) \<and>
   \<not> (91 \<le> (90::real)) \<and> \<not> (181 \<le> (180::real))"
proof -
  have "extract_points float_sample iso_sample doc_far = [(91, 181, Aware 1704067200000000)]"
    by code_simp
  then show ?thesis by simp
qed


section \<open>Tags and namespaces\<close>

lemma lower_append: "lower (a @ b) = lower a @ lower b"
  by (simp add: lower_def)

lemma sublist_qname: "sublist k (lower l) \<Longrightarrow> sublist k (lower (qname ns l))"
proof (cases ns)
  case None
  assume "sublist k (lower l)"
  with None show ?thesis by simp
next
  case (Some uri)
  assume "sublist k (lower l)"
  then have "sublist k (lower (''{'' @ uri @ ''}'') @ lower l)"
    by (simp add: sublist_append)
  then have "sublist k (lower ((''{'' @ uri @ ''}'') @ l))"
    by (simp only: lower_append)
  with Some show ?thesis by simp
qed

lemma first_occurrence:
  "x \<notin> set a \<Longrightarrow> x \<notin> set b \<Longrightarrow> a @ x # c = b @ x # d \<Longrightarrow> a = b"
proof (induction a arbitrary: b)
  case Nil
  then show ?case by (cases b) auto
next
  case (Cons y a)
  then show ?case by (cases b) auto
qed

lemma last_brace_unique:
  assumes "CHR ''}'' \<notin> set l" "CHR ''}'' \<notin> set name"
    and "pre @ CHR ''}'' # l = pre' @ CHR ''}'' # name"
  shows "l = name"
proof -
  from assms(3) have "rev (pre @ CHR ''}'' # l) = rev (pre' @ CHR ''}'' # name)" by simp
  then have "rev l @ CHR ''}'' # rev pre = rev name @ CHR ''}'' # rev pre'" by simp
  moreover have "CHR ''}'' \<notin> set (rev l)" "CHR ''}'' \<notin> set (rev name)"
    using assms(1,2) by simp_all
  ultimately have "rev l = rev name"
    using first_occurrence [of "CHR ''}''" "rev l" "rev name" "rev pre" "rev pre'"]
    by blast
  then show ?thesis by simp
qed

lemma wild_match_qname:
  assumes "CHR ''}'' \<notin> set l" "CHR ''}'' \<notin> set name"
  shows "wild_match name (qname ns l) \<longleftrightarrow> l = name"
proof (cases ns)
  case None
  have "\<not> suffix (CHR ''}'' # name) l"
    using assms(1) by (auto simp: suffix_def)
  with None show ?thesis by (auto simp: wild_match_def)
next
  case (Some uri)
  have ne: "''{'' @ uri @ ''}'' @ l \<noteq> name"
    using assms(2) by auto
  have "suffix (CHR ''}'' # name) (''{'' @ uri @ ''}'' @ l) \<longleftrightarrow> l = name"
  proof
    assume "suffix (CHR ''}'' # name) (''{'' @ uri @ ''}'' @ l)"
    then obtain pre where "''{'' @ uri @ ''}'' @ l = pre @ CHR ''}'' # name"
      by (auto simp: suffix_def)
    then have "(''{'' @ uri) @ CHR ''}'' # l = pre @ CHR ''}'' # name" by simp
    from last_brace_unique [OF assms this] show "l = name" .
  next
    assume "l = name"
    then have "''{'' @ uri @ ''}'' @ l = (''{'' @ uri) @ CHR ''}'' # name" by simp
    then show "suffix (CHR ''}'' # name) (''{'' @ uri @ ''}'' @ l)"
      unfolding suffix_def by blast
  qed
  with Some ne show ?thesis by (simp add: wild_match_def)
qed

text \<open>
  Claim C6, as the code has it. The pattern \<open>{*}name\<close> of the track-point, time and
  annotation searches compares the local name only: a tag built from any namespace, or
  none, and a local name matches exactly when the local name is the name. The
  metadata-marker test and the depth test are substring tests on the whole lowercased
  tag, which for a node in a namespace is \<open>{uri}local\<close>: they hold whenever the local
  name holds the word, whatever the namespace, and they read the URI as well.
\<close>

theorem tag_matching:
  assumes "CHR ''}'' \<notin> set l" and "CHR ''}'' \<notin> set name"
  shows "(wild_match name (qname ns l) \<longleftrightarrow> l = name) \<and>
    (is_marker_tag l \<longrightarrow> is_marker_tag (qname ns l)) \<and>
    (sublist ''depth'' (lower l) \<longrightarrow> sublist ''depth'' (lower (qname ns l))) \<and>
    (is_marker_tag (qname (Some uri) l) \<longleftrightarrow>
       list_ex (\<lambda>k. sublist k (''{'' @ lower uri @ ''}'' @ lower l)) metadata_markers) \<and>
    (sublist ''depth'' (lower (qname (Some uri) l)) \<longleftrightarrow>
       sublist ''depth'' (''{'' @ lower uri @ ''}'' @ lower l))"
proof (intro conjI impI)
  show "wild_match name (qname ns l) \<longleftrightarrow> l = name"
    using assms by (rule wild_match_qname)
  show "is_marker_tag (qname ns l)" if "is_marker_tag l"
    using that by (auto simp: is_marker_tag_def list_ex_iff intro: sublist_qname)
  show "sublist ''depth'' (lower (qname ns l))" if "sublist ''depth'' (lower l)"
    using that by (rule sublist_qname)
  have q: "lower (qname (Some uri) l) = ''{'' @ lower uri @ ''}'' @ lower l"
    by (simp add: lower_append) (simp add: lower_def lower_char_def)
  show "is_marker_tag (qname (Some uri) l) \<longleftrightarrow>
       list_ex (\<lambda>k. sublist k (''{'' @ lower uri @ ''}'' @ lower l)) metadata_markers"
    unfolding is_marker_tag_def q ..
  show "sublist ''depth'' (lower (qname (Some uri) l)) \<longleftrightarrow>
       sublist ''depth'' (''{'' @ lower uri @ ''}'' @ lower l)"
    unfolding q ..
qed

theorem tag_matching_witness:
  "CHR ''}'' \<notin> set ''trkpt'' \<and>
   wild_match ''trkpt'' (qname (Some ''http://www.topografix.com/GPX/1/1'') ''trkpt'') \<and>
   wild_match ''trkpt'' (qname None ''trkpt'') \<and>
   \<not> wild_match ''trkpt'' (qname (Some ''http://example.com/trkpt'') ''wpt'') \<and>
   is_marker_tag ''type'' \<and>
   is_marker_tag (qname (Some ''http://www.topografix.com/GPX/1/1'') ''type'')"
proof -
  have b: "CHR ''}'' \<notin> set ''trkpt''" "CHR ''}'' \<notin> set ''wpt''" "CHR ''}'' \<notin> set ''type''"
    by simp_all
  have m: "is_marker_tag ''type''" by code_simp
  from tag_matching [OF b(1) b(1), of "Some ''http://www.topografix.com/GPX/1/1''"]
  have 1: "wild_match ''trkpt'' (qname (Some ''http://www.topografix.com/GPX/1/1'') ''trkpt'')"
    by blast
  from tag_matching [OF b(1) b(1), of None]
  have 2: "wild_match ''trkpt'' (qname None ''trkpt'')" by blast
  from tag_matching [OF b(2) b(1), of "Some ''http://example.com/trkpt''"]
  have 3: "\<not> wild_match ''trkpt'' (qname (Some ''http://example.com/trkpt'') ''wpt'')"
    by simp
  from tag_matching [OF b(3) b(1), of "Some ''http://www.topografix.com/GPX/1/1''"] m
  have 4: "is_marker_tag (qname (Some ''http://www.topografix.com/GPX/1/1'') ''type'')"
    by blast
  from b 1 2 3 4 m show ?thesis by simp
qed

text \<open>
  Claim C6 as stated fails: in a namespace whose URI holds the word activity, nodes
  with the local names gpx and note are metadata candidates, and a root in a namespace
  whose URI holds the word depth counts as depth data.
\<close>

theorem namespace_uri_matches:
  "test_metadata doc_ns_activity = Tag ''run'' \<and>
   \<not> is_marker_tag ''gpx'' \<and> \<not> is_marker_tag ''note'' \<and>
   has_depth doc_ns_depth \<and> \<not> sublist ''depth'' (lower ''gpx'')"
  by code_simp

section \<open>Keywords across annotation fields\<close>

text \<open>
  Claim C10. A keyword of several words can match across two annotation fields: for a
  name Open and a description water the keyword detector returns swim, by the keyword
  open water in the joined text, although neither text holds that keyword, nor any
  other keyword of any activity.
\<close>

theorem keyword_across_fields:
  "test_keywords doc_open_water = Tag ''swim'' \<and>
   texts doc_open_water = [''open'', ''water''] \<and>
   \<not> sublist ''open water'' ''open'' \<and> \<not> sublist ''open water'' ''water'' \<and>
   first_activity ACTIVITY_MAP ''open'' = None \<and>
   first_activity ACTIVITY_MAP ''water'' = None"
  by code_simp


end
